theory Spec2Isabelle
  imports Complex_Main
begin

text \<open>
  A model of the desktop automation scripts: the template matcher and the template store of
  \<open>utils/element_extraction.py\<close>, the parsing of the language model's reply in
  \<open>template_automation.py\<close> and its sibling scripts, the action dispatcher of
  \<open>utils/action_execution.py\<close>, and the similarity check of \<open>utils/screen_capture.py\<close>.
  The first part holds the definitions, the second part the properties proved of them.

  The scripts are glue over OpenCV, PIL, scikit-image, \<open>json\<close> and PyAutoGUI. Each
  library call is a parameter of the model. A statement that depends on what a library
  computes names the behaviour it assumes as a hypothesis; the section of reference
  behaviour gives the libraries' documented formulas in exact arithmetic.
\<close>

section \<open>Shared Python notions\<close>

text \<open>
  A raised Python exception is a value carrying the text that \<open>str(e)\<close> prints. Every
  \<open>except Exception as e\<close> handler of the sources only formats that text.
\<close>

datatype exn = Exn string

fun exn_text :: "exn \<Rightarrow> string" where
  "exn_text (Exn s) = s"

section \<open>Template matching: \<open>find_templates_on_screen\<close>\<close>

text \<open>
  A grayscale raster is a list of pixel rows (a two-dimensional \<open>uint8\<close> array), a score
  map a list of rows of scores. The scores are 32-bit floats in the program; the program only
  compares them with the threshold and copies them, so they are modelled as reals.
\<close>

type_synonym gray_image = "nat list list"
type_synonym score_map = "real list list"

text \<open>\<open>a.shape\<close> of a two-dimensional array: (rows, columns).\<close>

definition shape :: "'a list list \<Rightarrow> nat \<times> nat" where
  "shape a = (length a, (case a of [] \<Rightarrow> 0 | r # _ \<Rightarrow> length r))"

text \<open>The value \<open>extract_templates\<close> stores per element name.\<close>

record template_info =
  filename :: string
  bounding_box :: "int list"
  elem_type :: string
  description :: string

text \<open>The value \<open>find_templates_on_screen\<close> stores per template name.\<close>

record location =
  center :: "nat \<times> nat"
  box :: "nat \<times> nat \<times> nat \<times> nat"
  confidence :: real

text \<open>
  The three OpenCV entry points the function calls:
  \<^item> \<open>cvtColor_gray\<close> is lines 118-119, the conversion of the PIL screenshot to a grayscale
    array; it runs outside the \<open>try\<close> block, so an exception it raises reaches the caller;
  \<^item> \<open>imread_gray\<close> is \<open>cv2.imread(_, IMREAD_GRAYSCALE)\<close>, which returns \<open>None\<close> for a
    file that is missing or cannot be decoded;
  \<^item> \<open>matchTemplate\<close> is \<open>cv2.matchTemplate(_, _, TM_CCOEFF_NORMED)\<close>, which returns a
    score map or raises \<open>cv2.error\<close>.
\<close>

record 'img cv2 =
  cvtColor_gray :: "'img \<Rightarrow> exn + gray_image"
  imread_gray :: "string \<Rightarrow> gray_image option"
  matchTemplate :: "gray_image \<Rightarrow> gray_image \<Rightarrow> exn + score_map"

text \<open>
  \<open>zip(*np.where(result >= confidence)[::-1])\<close>: \<open>np.where\<close> lists the indices of the
  qualifying cells in row-major order (row by row, each row from left to right) as a pair of
  arrays (rows, columns); reversing the pair and zipping gives the points \<open>(x, y)\<close> in that
  same order.
\<close>

fun row_hits :: "real \<Rightarrow> nat \<Rightarrow> real list \<Rightarrow> nat list" where
  "row_hits c x [] = []"
| "row_hits c x (v # vs) = (if c \<le> v then x # row_hits c (x + 1) vs else row_hits c (x + 1) vs)"

fun where_ge_from :: "real \<Rightarrow> nat \<Rightarrow> score_map \<Rightarrow> (nat \<times> nat) list" where
  "where_ge_from c y [] = []"
| "where_ge_from c y (row # rows) =
     map (\<lambda>x. (x, y)) (row_hits c 0 row) @ where_ge_from c (y + 1) rows"

definition np_where_ge :: "score_map \<Rightarrow> real \<Rightarrow> (nat \<times> nat) list" where
  "np_where_ge result c = where_ge_from c 0 result"

text \<open>
  The inner loop, lines 137-152: the entry is stored for the first point when the name has
  no entry yet, and the loop is left at once (\<open>break\<close>).
\<close>

fun scan_points ::
  "(string \<rightharpoonup> location) \<Rightarrow> string \<Rightarrow> gray_image \<Rightarrow> score_map \<Rightarrow> (nat \<times> nat) list
     \<Rightarrow> (string \<rightharpoonup> location)" where
  "scan_points locations name template result [] = locations"
| "scan_points locations name template result (pt # pts) =
     (let (h, w) = shape template;
          center_x = fst pt + w div 2;
          center_y = snd pt + h div 2
      in if locations name = None
         then locations(name \<mapsto>
                \<lparr>center = (center_x, center_y),
                 box = (fst pt, snd pt, fst pt + w, snd pt + h),
                 confidence = result ! snd pt ! fst pt\<rparr>)
         else scan_points locations name template result pts)"

text \<open>
  The body of the outer loop, lines 124-155, on the state (locations, printed lines). The only
  call of the \<open>try\<close> block that can raise is \<open>cv2.matchTemplate\<close>; the handler prints and the
  loop goes on with the next template.
\<close>

definition template_step ::
  "'img cv2 \<Rightarrow> gray_image \<Rightarrow> real \<Rightarrow> (string \<rightharpoonup> location) \<times> string list
     \<Rightarrow> string \<times> template_info \<Rightarrow> (string \<rightharpoonup> location) \<times> string list" where
  "template_step cv screenshot_gray conf st item =
     (case st of (locations, printed) \<Rightarrow>
      case item of (name, info) \<Rightarrow>
        (case imread_gray cv (filename info) of
           None \<Rightarrow>
             (locations,
              printed @ [''Could not load template '' @ [CHR 0x27] @ filename info @ [CHR 0x27]])
         | Some template \<Rightarrow>
             (case matchTemplate cv screenshot_gray template of
                Inl e \<Rightarrow>
                  (locations,
                   printed @ [''Error finding template '' @ name @ '': '' @ exn_text e])
              | Inr result \<Rightarrow>
                  (scan_points locations name template result (np_where_ge result conf),
                   printed))))"

text \<open>
  \<open>find_templates_on_screen(screenshot, templates, confidence)\<close>. The dictionary
  \<open>templates\<close> is the list of its items in iteration order (its keys are distinct). The
  result is the returned dictionary together with the lines printed, or the exception of the
  conversion.
\<close>

definition find_templates_on_screen ::
  "'img cv2 \<Rightarrow> 'img \<Rightarrow> (string \<times> template_info) list \<Rightarrow> real
     \<Rightarrow> exn + ((string \<rightharpoonup> location) \<times> string list)" where
  "find_templates_on_screen cv screenshot templates conf =
     (case cvtColor_gray cv screenshot of
        Inl e \<Rightarrow> Inl e
      | Inr screenshot_gray \<Rightarrow>
          Inr (foldl (template_step cv screenshot_gray conf) (Map.empty, []) templates))"

section \<open>Template store: \<open>extract_templates\<close>\<close>

text \<open>
  An element name is a string of 8-bit code points (ASCII and Latin-1, the range of
  \<^typ>\<open>char\<close>). On that range \<open>str.isalnum\<close> and \<open>str.lower\<close> are the two tables below:
  the letters, the digits, the superscript digits and the vulgar fractions are alphanumeric,
  and the upper-case letters \<open>A-Z\<close>, \<open>0xC0-0xD6\<close> and \<open>0xD8-0xDE\<close> are mapped 32 places up.
\<close>

definition isalnum :: "char \<Rightarrow> bool" where
  "isalnum c =
     (let n = (of_char c :: nat)
      in (48 \<le> n \<and> n \<le> 57) \<or> (65 \<le> n \<and> n \<le> 90) \<or> (97 \<le> n \<and> n \<le> 122) \<or>
         n = 170 \<or> n = 178 \<or> n = 179 \<or> n = 181 \<or> n = 185 \<or> n = 186 \<or>
         (188 \<le> n \<and> n \<le> 190) \<or> (192 \<le> n \<and> n \<le> 214) \<or> (216 \<le> n \<and> n \<le> 246) \<or>
         248 \<le> n)"

definition lower_char :: "char \<Rightarrow> char" where
  "lower_char c =
     (let n = (of_char c :: nat)
      in if (65 \<le> n \<and> n \<le> 90) \<or> (192 \<le> n \<and> n \<le> 214) \<or> (216 \<le> n \<and> n \<le> 222)
         then char_of (n + 32) else c)"

definition py_lower :: "string \<Rightarrow> string" where
  "py_lower s = map lower_char s"

text \<open>Line 87: \<open>''.join(c if c.isalnum() else '_' for c in name).lower()\<close>.\<close>

definition safe_name :: "string \<Rightarrow> string" where
  "safe_name name = py_lower (map (\<lambda>c. if isalnum c then c else CHR ''_'') name)"

text \<open>
  An element is a dictionary decoded from the language model's reply; any of its keys may be
  missing, and the bounding box is a list of any length.
\<close>

record element =
  e_name :: "string option"
  e_bounding_box :: "int list option"
  e_type :: "string option"
  e_description :: "string option"

text \<open>
  The PIL operations the function calls: \<open>Image.crop\<close> returns a raster or raises,
  \<open>Image.save\<close> writes the file or raises, \<open>Image.size\<close> is (width, height).
\<close>

record 'img pil =
  pil_crop :: "'img \<Rightarrow> int \<times> int \<times> int \<times> int \<Rightarrow> exn + 'img"
  pil_save :: "'img \<Rightarrow> string \<Rightarrow> exn option"
  pil_size :: "'img \<Rightarrow> nat \<times> nat"

text \<open>Line 81, \<open>x1, y1, x2, y2 = element['bounding_box']\<close>: exactly four values unpack.\<close>

fun unpack4 :: "int list \<Rightarrow> exn + (int \<times> int \<times> int \<times> int)" where
  "unpack4 [x1, y1, x2, y2] = Inr (x1, y1, x2, y2)"
| "unpack4 xs =
     Inl (Exn (if length xs < 4
               then ''not enough values to unpack (expected 4, got '' @ [char_of (48 + length xs)] @ '')''
               else ''too many values to unpack (expected 4)''))"

text \<open>
  The state of the loop: the dictionary \<open>templates\<close>, the files of the template directory
  (path to stored raster) and the lines printed. A save that raises is taken to leave the
  stored files as they were.
\<close>

type_synonym 'img extraction = "(string \<rightharpoonup> template_info) \<times> (string \<rightharpoonup> 'img) \<times> string list"

text \<open>The handler of lines 101-102.\<close>

definition extract_failed :: "'img extraction \<Rightarrow> string \<Rightarrow> exn \<Rightarrow> 'img extraction" where
  "extract_failed st name e =
     (case st of (templates, files, printed) \<Rightarrow>
        (templates, files,
         printed @ [''Error extracting template for '' @ name @ '': '' @ exn_text e]))"

text \<open>The body of the loop, lines 78-102. No line of it looks at the screenshot's size.\<close>

definition extract_step ::
  "'img pil \<Rightarrow> string \<Rightarrow> 'img \<Rightarrow> 'img extraction \<Rightarrow> element \<Rightarrow> 'img extraction" where
  "extract_step pil template_dir screenshot st element =
     (case (e_bounding_box element, e_name element) of
        (Some bbox, Some name) \<Rightarrow>
          (case unpack4 bbox of
             Inl e \<Rightarrow> extract_failed st name e
           | Inr b \<Rightarrow>
               (case pil_crop pil screenshot b of
                  Inl e \<Rightarrow> extract_failed st name e
                | Inr element_img \<Rightarrow>
                    (let filename = template_dir @ ''/'' @ safe_name name @ ''.png''
                     in case pil_save pil element_img filename of
                          Some e \<Rightarrow> extract_failed st name e
                        | None \<Rightarrow>
                            (case st of (templates, files, printed) \<Rightarrow>
                               (templates(name \<mapsto>
                                  \<lparr>filename = filename,
                                   bounding_box = bbox,
                                   elem_type = (case e_type element of None \<Rightarrow> ''unknown'' | Some t \<Rightarrow> t),
                                   description = (case e_description element of None \<Rightarrow> [] | Some d \<Rightarrow> d)\<rparr>),
                                files(filename \<mapsto> element_img),
                                printed)))))
      | _ \<Rightarrow> st)"

text \<open>
  \<open>extract_templates(screenshot, elements)\<close>, started on the files already stored. The
  function \<open>extract_element_templates\<close> of \<open>vision_automation.py\<close> is the same loop with the
  directory \<open>templates\<close>.
\<close>

definition extract_templates ::
  "'img pil \<Rightarrow> string \<Rightarrow> 'img \<Rightarrow> element list \<Rightarrow> (string \<rightharpoonup> 'img) \<Rightarrow> 'img extraction" where
  "extract_templates pil template_dir screenshot elements files =
     foldl (extract_step pil template_dir screenshot) (Map.empty, files, []) elements"

section \<open>The language model's reply: \<open>process_user_request\<close>\<close>

text \<open>What \<open>json.loads\<close> returns.\<close>

datatype json =
    JNull
  | JBool bool
  | JNumber real
  | JString string
  | JArray "json list"
  | JObject "(string \<times> json) list"

text \<open>\<open>str.find\<close> and \<open>str.rfind\<close> for one character: the first and the last index, or -1.\<close>

fun py_find_from :: "char \<Rightarrow> int \<Rightarrow> string \<Rightarrow> int" where
  "py_find_from c i [] = - 1"
| "py_find_from c i (x # xs) = (if x = c then i else py_find_from c (i + 1) xs)"

definition py_find :: "string \<Rightarrow> char \<Rightarrow> int" where
  "py_find s c = py_find_from c 0 s"

fun py_rfind_from :: "char \<Rightarrow> int \<Rightarrow> string \<Rightarrow> int" where
  "py_rfind_from c i [] = - 1"
| "py_rfind_from c i (x # xs) =
     (let r = py_rfind_from c (i + 1) xs
      in if r \<noteq> - 1 then r else if x = c then i else - 1)"

definition py_rfind :: "string \<Rightarrow> char \<Rightarrow> int" where
  "py_rfind s c = py_rfind_from c 0 s"

text \<open>
  The slice \<open>s[i:j]\<close>: a negative index counts from the end, every index is clipped to the
  string, and the slice is empty when \<open>j\<close> does not lie after \<open>i\<close>.
\<close>

definition slice_index :: "int \<Rightarrow> nat \<Rightarrow> nat" where
  "slice_index i n = (if i < 0 then nat (max 0 (int n + i)) else min (nat i) n)"

definition py_slice :: "'a list \<Rightarrow> int \<Rightarrow> int \<Rightarrow> 'a list" where
  "py_slice s i j = take (slice_index j (length s) - slice_index i (length s))
                         (drop (slice_index i (length s)) s)"

text \<open>
  Lines 68-72 of \<open>template_automation.py\<close> (lines 88-92 of \<open>desktop_automation.py\<close>): the
  text handed to \<open>json.loads\<close>, or \<open>None\<close> when the \<open>else\<close> branch is taken. Since
  \<open>end_idx\<close> is \<open>rfind + 1\<close>, it is never -1.
\<close>

definition extract_json_str :: "string \<Rightarrow> string option" where
  "extract_json_str response_text =
     (let start_idx = py_find response_text (CHR ''{'');
          end_idx = py_rfind response_text (CHR ''}'') + 1
      in if start_idx \<noteq> - 1 \<and> end_idx \<noteq> - 1
         then Some (py_slice response_text start_idx end_idx)
         else None)"

definition error_result :: "string \<Rightarrow> json" where
  "error_result msg = JObject [(''error'', JString msg)]"

text \<open>The handler of lines 76-78: the line printed and the dictionary returned.\<close>

definition parse_failed :: "exn \<Rightarrow> json \<times> string list" where
  "parse_failed e =
     (error_result (''Parse error: '' @ exn_text e), [''Error parsing action: '' @ exn_text e])"

text \<open>
  \<open>process_user_request\<close> from line 64 on. The prompt and the call of the language model
  (lines 32-62) are not modelled: the reply is the argument. Reading \<open>response.text\<close>
  happens inside the \<open>try\<close> block and can raise, so the reply is a text or an exception;
  \<open>json_loads\<close> is \<open>json.loads\<close>. The result is the value returned and the lines printed.
\<close>

definition process_user_request ::
  "(string \<Rightarrow> exn + json) \<Rightarrow> exn + string \<Rightarrow> json \<times> string list" where
  "process_user_request json_loads response =
     (case response of
        Inl e \<Rightarrow> parse_failed e
      | Inr response_text \<Rightarrow>
          (case extract_json_str response_text of
             Some json_str \<Rightarrow>
               (case json_loads json_str of
                  Inl e \<Rightarrow> parse_failed e
                | Inr action \<Rightarrow> (action, []))
           | None \<Rightarrow> (error_result ''Could not parse response'', [])))"

text \<open>\<open>key in action\<close> for a decoded object.\<close>

fun has_key :: "string \<Rightarrow> json \<Rightarrow> bool" where
  "has_key k (JObject kvs) = (k \<in> fst ` set kvs)"
| "has_key k _ = False"

section \<open>Action dispatch: \<open>execute_action\<close>\<close>

text \<open>
  The calls that leave the process: the PyAutoGUI operations and the console read of
  \<open>call_user\<close>. Whether such a call raises is decided outside the program; the model takes
  it as the parameter \<open>raises\<close>.
\<close>

datatype ext_call =
    Click int int
  | DoubleClick int int
  | RightClick int int
  | MoveTo int int
  | DragTo int int
  | Typewrite string
  | Hotkey "string list"
  | Scroll int int int
  | HScroll int int int
  | Input string

text \<open>The keyword arguments the function reads; \<open>None\<close> is an argument not given.\<close>

record kwargs =
  kw_end_location :: "(int \<times> int) option"
  kw_text :: "string option"
  kw_keys :: "string list option"
  kw_direction :: "string option"
  kw_clicks :: "int option"
  kw_seconds :: "real option"
  kw_message :: "string option"

text \<open>The entry appended to \<open>action_history\<close> and the fields of the executor.\<close>

record action_record =
  rec_type :: string
  rec_target :: "string option"
  rec_location :: "(int \<times> int) option"
  rec_params :: kwargs
  rec_timestamp :: real

record executor =
  safety_level :: string
  last_action_time :: real
  actions_per_minute :: nat
  action_history :: "action_record list"

text \<open>
  What the function changes outside the executor: the clock read by \<open>time.time()\<close> and
  advanced by \<open>time.sleep\<close>, the external calls issued so far, and the lines printed.
\<close>

record world =
  w_clock :: real
  w_calls :: "ext_call list"
  w_output :: "string list"

definition py_sleep :: "real \<Rightarrow> world \<Rightarrow> world" where
  "py_sleep d w = w\<lparr>w_clock := w_clock w + d\<rparr>"

definition py_print :: "string \<Rightarrow> world \<Rightarrow> world" where
  "py_print s w = w\<lparr>w_output := w_output w @ [s]\<rparr>"

text \<open>
  One external call inside the \<open>try\<close> block: it is issued, and it returns or raises. A
  second call runs only when the first has returned.
\<close>

definition call :: "(ext_call \<Rightarrow> exn option) \<Rightarrow> ext_call \<Rightarrow> world \<Rightarrow> (exn + bool) \<times> world" where
  "call raises c w =
     (case raises c of
        Some e \<Rightarrow> (Inl e, w\<lparr>w_calls := w_calls w @ [c]\<rparr>)
      | None \<Rightarrow> (Inr True, w\<lparr>w_calls := w_calls w @ [c]\<rparr>))"

definition then_call ::
  "(exn + bool) \<times> world \<Rightarrow> (ext_call \<Rightarrow> exn option) \<Rightarrow> ext_call \<Rightarrow> (exn + bool) \<times> world" where
  "then_call r raises c = (case r of (Inl e, w) \<Rightarrow> (Inl e, w) | (Inr b, w) \<Rightarrow> call raises c w)"

text \<open>The safety checks of lines 38-52.\<close>

definition rate_limit :: "executor \<Rightarrow> world \<Rightarrow> executor \<times> world" where
  "rate_limit ex w =
     (if safety_level ex = ''high'' then
        (let current_time = w_clock w;
             w1 = (if current_time - last_action_time ex < 1/2
                   then py_sleep (1/2 - (current_time - last_action_time ex)) w else w);
             ex1 = ex\<lparr>last_action_time := w_clock w1,
                       actions_per_minute := actions_per_minute ex + 1\<rparr>
         in if 30 < actions_per_minute ex1
            then (ex1\<lparr>actions_per_minute := 0\<rparr>,
                  py_sleep 2 (py_print ''Too many actions! Slowing down for safety...'' w1))
            else (ex1, w1))
      else (ex, w))"

text \<open>
  The \<open>try\<close> block of lines 65-131: the value returned or the exception raised, and the
  world afterwards. A location is a pair or \<open>None\<close>; \<open>time.sleep\<close> raises
  \<open>ValueError\<close> on a negative length.
\<close>

definition dispatch ::
  "(ext_call \<Rightarrow> exn option) \<Rightarrow> string \<Rightarrow> (int \<times> int) option \<Rightarrow> kwargs \<Rightarrow> world
     \<Rightarrow> (exn + bool) \<times> world" where
  "dispatch raises action_type location kw w =
     (if action_type = ''click'' then
        (case location of
           Some (x, y) \<Rightarrow> call raises (Click x y) w
         | None \<Rightarrow> (Inr False, w))
      else if action_type = ''double_click'' then
        (case location of
           Some (x, y) \<Rightarrow> call raises (DoubleClick x y) w
         | None \<Rightarrow> (Inr False, w))
      else if action_type = ''right_click'' then
        (case location of
           Some (x, y) \<Rightarrow> call raises (RightClick x y) w
         | None \<Rightarrow> (Inr False, w))
      else if action_type = ''drag'' then
        (case (location, kw_end_location kw) of
           (Some (sx, sy), Some (ex, ey)) \<Rightarrow>
             then_call (call raises (MoveTo sx sy) w) raises (DragTo ex ey)
         | _ \<Rightarrow> (Inr False, w))
      else if action_type = ''type'' then
        (case location of
           Some (x, y) \<Rightarrow>
             then_call (call raises (Click x y) w) raises
               (Typewrite (case kw_text kw of None \<Rightarrow> [] | Some t \<Rightarrow> t))
         | None \<Rightarrow> (Inr False, w))
      else if action_type = ''hotkey'' then
        (case kw_keys kw of
           Some (k # ks) \<Rightarrow> call raises (Hotkey (k # ks)) w
         | _ \<Rightarrow> (Inr False, w))
      else if action_type = ''scroll'' then
        (let direction = (case kw_direction kw of None \<Rightarrow> ''down'' | Some d \<Rightarrow> d);
             clicks = (case kw_clicks kw of None \<Rightarrow> 3 | Some c \<Rightarrow> c)
         in case location of
              Some (x, y) \<Rightarrow>
                (if direction = ''down'' then call raises (Scroll (- clicks) x y) w
                 else if direction = ''up'' then call raises (Scroll clicks x y) w
                 else if direction = ''left'' then call raises (HScroll (- clicks) x y) w
                 else if direction = ''right'' then call raises (HScroll clicks x y) w
                 else (Inr True, w))
            | None \<Rightarrow> (Inr False, w))
      else if action_type = ''wait'' then
        (let seconds = (case kw_seconds kw of None \<Rightarrow> 5 | Some s \<Rightarrow> s)
         in if seconds < 0 then (Inl (Exn ''sleep length must be non-negative''), w)
            else (Inr True, py_sleep seconds w))
      else if action_type = ''finished'' then
        (Inr True, py_print ''Task completed successfully!'' w)
      else if action_type = ''call_user'' then
        call raises (Input ''Press Enter to continue...'')
          (py_print ([CHR 0x0A] @ ''!!! '' @ (case kw_message kw of None \<Rightarrow> ''Attention required'' | Some m \<Rightarrow> m) @ '' !!!'') w)
      else (Inr False, w))"

text \<open>
  \<open>execute_action(action_type, target, location, **kwargs)\<close>: the safety checks, the
  history entry, the \<open>try\<close> block and its handler, which prints and returns \<open>False\<close>.
\<close>

definition execute_action ::
  "(ext_call \<Rightarrow> exn option) \<Rightarrow> executor \<Rightarrow> world \<Rightarrow> string \<Rightarrow> string option
     \<Rightarrow> (int \<times> int) option \<Rightarrow> kwargs \<Rightarrow> bool \<times> executor \<times> world" where
  "execute_action raises ex w action_type target location kw =
     (let (ex1, w1) = rate_limit ex w;
          action_record = \<lparr>rec_type = action_type, rec_target = target, rec_location = location,
                           rec_params = kw, rec_timestamp = w_clock w1\<rparr>;
          ex2 = ex1\<lparr>action_history := action_history ex1 @ [action_record]\<rparr>
      in case dispatch raises action_type location kw w1 of
           (Inr b, w2) \<Rightarrow> (b, ex2, w2)
         | (Inl e, w2) \<Rightarrow> (False, ex2, py_print (''Error executing action: '' @ exn_text e) w2))"

section \<open>Screenshot similarity: \<open>compare_screenshots\<close>\<close>

text \<open>
  An argument of \<open>compare_screenshots\<close> is a PIL image or an array that is already
  grayscale (the \<open>isinstance\<close> tests of lines 58-61).
\<close>

datatype 'img shot = PilImage 'img | Array gray_image

text \<open>
  The library calls: the conversion \<open>cv2.cvtColor(np.array(_), COLOR_RGB2GRAY)\<close>,
  \<open>cv2.resize(_, (width, height))\<close>, the structural similarity of \<open>skimage.metrics\<close>
  (\<open>None\<close> when the import fails), and \<open>cv2.matchTemplate\<close>.
\<close>

record 'img simlib =
  rgb2gray :: "'img \<Rightarrow> exn + gray_image"
  cv_resize :: "gray_image \<Rightarrow> nat \<Rightarrow> nat \<Rightarrow> exn + gray_image"
  skimage_ssim :: "(gray_image \<Rightarrow> gray_image \<Rightarrow> exn + real) option"
  match_template :: "gray_image \<Rightarrow> gray_image \<Rightarrow> exn + score_map"

definition as_gray :: "'img simlib \<Rightarrow> 'img shot \<Rightarrow> exn + gray_image" where
  "as_gray lib img = (case img of PilImage p \<Rightarrow> rgb2gray lib p | Array a \<Rightarrow> Inr a)"

text \<open>The \<open>max_val\<close> of \<open>cv2.minMaxLoc\<close>: the largest score of the map.\<close>

definition max_val :: "score_map \<Rightarrow> real" where
  "max_val result = (case concat result of [] \<Rightarrow> 0 | v # vs \<Rightarrow> foldl max v vs)"

text \<open>
  \<open>compare_screenshots(image1, image2)\<close>, lines 55-76. Only \<open>ImportError\<close> is caught:
  an exception raised by a conversion, by the resize or by a metric reaches the caller. The
  result is the score of the metric, returned as it is.
\<close>

definition compare_screenshots :: "'img simlib \<Rightarrow> 'img shot \<Rightarrow> 'img shot \<Rightarrow> exn + real" where
  "compare_screenshots lib image1 image2 =
     (case as_gray lib image1 of
        Inl e \<Rightarrow> Inl e
      | Inr g1 \<Rightarrow>
          (case as_gray lib image2 of
             Inl e \<Rightarrow> Inl e
           | Inr g2 \<Rightarrow>
               (case (if shape g1 \<noteq> shape g2
                      then cv_resize lib g2 (snd (shape g1)) (fst (shape g1))
                      else Inr g2) of
                  Inl e \<Rightarrow> Inl e
                | Inr g2' \<Rightarrow>
                    (case skimage_ssim lib of
                       Some ssim \<Rightarrow> ssim g1 g2'
                     | None \<Rightarrow>
                         (case match_template lib g1 g2' of
                            Inl e \<Rightarrow> Inl e
                          | Inr result \<Rightarrow> Inr (max_val result))))))"

section \<open>Reference behaviour of the library routines\<close>

text \<open>
  \<open>cv2.matchTemplate\<close> with \<open>TM_CCOEFF_NORMED\<close> in exact arithmetic. The score of a window
  \<open>I\<close> against the template \<open>T\<close> is
  \<open>sum (T' * I') / sqrt (sum (T' * T') * sum (I' * I'))\<close>, where \<open>T'\<close> and \<open>I'\<close> are the
  deviations from the respective means. OpenCV reports 1 everywhere for a template of constant
  colour, and 0 for a window of constant colour.
\<close>

definition mean :: "nat list \<Rightarrow> real" where
  "mean xs = real (sum_list xs) / real (length xs)"

definition deviations :: "nat list \<Rightarrow> real list" where
  "deviations xs = map (\<lambda>v. real v - mean xs) xs"

definition ccoeff_normed :: "nat list \<Rightarrow> nat list \<Rightarrow> real" where
  "ccoeff_normed t w =
     (let t' = deviations t;
          w' = deviations w;
          templ_norm = (\<Sum>a \<leftarrow> t'. a * a);
          wnd_norm = (\<Sum>b \<leftarrow> w'. b * b);
          num = (\<Sum>(a, b) \<leftarrow> zip t' w'. a * b)
      in if templ_norm = 0 then 1
         else if wnd_norm = 0 then 0
         else num / sqrt (templ_norm * wnd_norm))"

text \<open>The \<open>h\<close> by \<open>w\<close> window of a raster whose top-left pixel is \<open>(x, y)\<close>.\<close>

definition window :: "gray_image \<Rightarrow> nat \<Rightarrow> nat \<Rightarrow> nat \<Rightarrow> nat \<Rightarrow> gray_image" where
  "window img x y h w = map (\<lambda>row. take w (drop x row)) (take h (drop y img))"

definition score_rows :: "nat \<Rightarrow> nat \<Rightarrow> (nat \<Rightarrow> nat \<Rightarrow> real) \<Rightarrow> score_map" where
  "score_rows n m f = map (\<lambda>y. map (\<lambda>x. f x y) [0..<m]) [0..<n]"

text \<open>
  The sizes OpenCV accepts: when the searched image is smaller than the template in one
  dimension, the call fails its assertion unless the image is no larger than the template in
  both dimensions, and then the two exchange their roles. The score map has one cell per
  placement of the smaller raster inside the larger.
\<close>

definition cv2_matchTemplate :: "gray_image \<Rightarrow> gray_image \<Rightarrow> exn + score_map" where
  "cv2_matchTemplate img templ =
     (let needswap = fst (shape img) < fst (shape templ) \<or> snd (shape img) < snd (shape templ)
      in if needswap \<and>
            \<not> (fst (shape img) \<le> fst (shape templ) \<and> snd (shape img) \<le> snd (shape templ))
         then Inl (Exn ''(-215:Assertion failed) _img.size().height <= _templ.size().height && _img.size().width <= _templ.size().width in function matchTemplate'')
         else
           (let big = (if needswap then templ else img);
                small = (if needswap then img else templ);
                (ih, iw) = shape big;
                (th, tw) = shape small
            in Inr (score_rows (ih - th + 1) (iw - tw + 1)
                      (\<lambda>x y. ccoeff_normed (concat small) (concat (window big x y th tw))))))"

text \<open>
  \<open>Image.crop\<close> on a grayscale raster: a box whose right or lower edge lies before its left
  or upper edge raises \<open>ValueError\<close>; any other box is cut out, and the part of it that lies
  outside the raster is filled with 0. \<open>Image.save\<close> raises on a raster without pixels.
\<close>

fun pixel_at :: "gray_image \<Rightarrow> int \<Rightarrow> int \<Rightarrow> nat" where
  "pixel_at img x y =
     (if 0 \<le> y \<and> y < int (length img) \<and> 0 \<le> x \<and> x < int (length (img ! nat y))
      then img ! nat y ! nat x else 0)"

definition crop_padded :: "gray_image \<Rightarrow> int \<times> int \<times> int \<times> int \<Rightarrow> exn + gray_image" where
  "crop_padded img b =
     (case b of (x1, y1, x2, y2) \<Rightarrow>
        if x2 < x1 then Inl (Exn ''Coordinate right is less than left'')
        else if y2 < y1 then Inl (Exn ''Coordinate lower is less than upper'')
        else Inr (map (\<lambda>y. map (\<lambda>x. pixel_at img x y) [x1..x2 - 1]) [y1..y2 - 1]))"

definition raster_size :: "gray_image \<Rightarrow> nat \<times> nat" where
  "raster_size img = ((case img of [] \<Rightarrow> 0 | r # _ \<Rightarrow> length r), length img)"

definition save_nonempty :: "gray_image \<Rightarrow> string \<Rightarrow> exn option" where
  "save_nonempty img f =
     (if fst (raster_size img) = 0 \<or> snd (raster_size img) = 0
      then Some (Exn ''tile cannot extend outside image'') else None)"

text \<open>
  \<open>skimage.metrics.structural_similarity\<close> with its defaults on 8-bit images, in exact
  arithmetic: windows of 7 by 7 pixels, the sample covariance (factor 49/48), the constants
  \<open>C1 = (0.01 * 255)^2\<close> and \<open>C2 = (0.03 * 255)^2\<close>, and the mean of the window scores
  over all windows that lie inside the image. It raises \<open>ValueError\<close> for an image with
  fewer than 7 rows or columns.
\<close>

definition mean_real :: "real list \<Rightarrow> real" where
  "mean_real xs = sum_list xs / real (length xs)"

definition ssim_window :: "nat list \<Rightarrow> nat list \<Rightarrow> real" where
  "ssim_window xs ys =
     (let x = map real xs;
          y = map real ys;
          ux = mean_real x;
          uy = mean_real y;
          uxx = mean_real (map (\<lambda>a. a * a) x);
          uyy = mean_real (map (\<lambda>a. a * a) y);
          uxy = mean_real (map (\<lambda>(a, b). a * b) (zip x y));
          cov_norm = 49 / 48;
          vx = cov_norm * (uxx - ux * ux);
          vy = cov_norm * (uyy - uy * uy);
          vxy = cov_norm * (uxy - ux * uy);
          C1 = (1 / 100 * 255) * (1 / 100 * 255);
          C2 = (3 / 100 * 255) * (3 / 100 * 255)
      in ((2 * ux * uy + C1) * (2 * vxy + C2)) / ((ux * ux + uy * uy + C1) * (vx + vy + C2)))"

definition ssim_ref :: "gray_image \<Rightarrow> gray_image \<Rightarrow> exn + real" where
  "ssim_ref im1 im2 =
     (if shape im1 \<noteq> shape im2 then Inl (Exn ''Input images must have the same dimensions.'')
      else if fst (shape im1) < 7 \<or> snd (shape im1) < 7
      then Inl (Exn ''win_size exceeds image extent.'')
      else Inr (mean_real (concat (score_rows (fst (shape im1) - 6) (snd (shape im1) - 6)
                  (\<lambda>x y. ssim_window (concat (window im1 x y 7 7))
                                      (concat (window im2 x y 7 7)))))))"

section \<open>Notions used in the statements\<close>

text \<open>
  The entry the inner loop stores for a point, the entry one template yields on its own, and
  the lines one template prints. They restate parts of \<open>scan_points\<close> and
  \<open>template_step\<close>; lemma \<open>find_templates_on_screen_eq\<close> connects them to the function.
\<close>

definition entry_at :: "gray_image \<Rightarrow> score_map \<Rightarrow> nat \<times> nat \<Rightarrow> location" where
  "entry_at template result pt =
     \<lparr>center = (fst pt + snd (shape template) div 2, snd pt + fst (shape template) div 2),
      box = (fst pt, snd pt, fst pt + snd (shape template), snd pt + fst (shape template)),
      confidence = result ! snd pt ! fst pt\<rparr>"

definition match_one :: "'img cv2 \<Rightarrow> gray_image \<Rightarrow> real \<Rightarrow> template_info \<Rightarrow> location option" where
  "match_one cv g conf info =
     (case imread_gray cv (filename info) of
        None \<Rightarrow> None
      | Some template \<Rightarrow>
          (case matchTemplate cv g template of
             Inl e \<Rightarrow> None
           | Inr result \<Rightarrow>
               (case np_where_ge result conf of
                  [] \<Rightarrow> None
                | pt # _ \<Rightarrow> Some (entry_at template result pt))))"

definition step_print :: "'img cv2 \<Rightarrow> gray_image \<Rightarrow> string \<times> template_info \<Rightarrow> string list" where
  "step_print cv g item =
     (case imread_gray cv (filename (snd item)) of
        None \<Rightarrow> [''Could not load template '' @ [CHR 0x27] @ filename (snd item) @ [CHR 0x27]]
      | Some template \<Rightarrow>
          (case matchTemplate cv g template of
             Inl e \<Rightarrow> [''Error finding template '' @ fst item @ '': '' @ exn_text e]
           | Inr result \<Rightarrow> []))"

text \<open>A raster of \<open>h\<close> rows of \<open>w\<close> pixels each, and a raster of one colour.\<close>

definition rect :: "'a list list \<Rightarrow> nat \<Rightarrow> nat \<Rightarrow> bool" where
  "rect a h w \<longleftrightarrow> length a = h \<and> list_all (\<lambda>r. length r = w) a"




text \<open>Saving a raster of width or height 0 raises.\<close>

definition rejects_empty :: "'img pil \<Rightarrow> bool" where
  "rejects_empty pil \<longleftrightarrow>
     (\<forall>img f. fst (pil_size pil img) = 0 \<or> snd (pil_size pil img) = 0 \<longrightarrow> pil_save pil img f \<noteq> None)"

text \<open>
  The extraction as the specification words it, "the first balanced bracketed substring":
  from the first opening brace up to the closing brace that matches it.
\<close>

fun balanced_prefix :: "nat \<Rightarrow> string \<Rightarrow> string option" where
  "balanced_prefix d [] = None"
| "balanced_prefix d (c # cs) =
     (if c = CHR ''{'' then map_option ((#) c) (balanced_prefix (d + 1) cs)
      else if c = CHR ''}'' then
        (if d = 0 then None
         else if d = 1 then Some [c]
         else map_option ((#) c) (balanced_prefix (d - 1) cs))
      else map_option ((#) c) (balanced_prefix d cs))"

definition first_balanced_object :: "string \<Rightarrow> string option" where
  "first_balanced_object s = balanced_prefix 0 (dropWhile (\<lambda>c. c \<noteq> CHR ''{'') s)"

text \<open>The action kinds \<open>execute_action\<close> knows, and those that act at a location.\<close>

definition known_actions :: "string list" where
  "known_actions = [''click'', ''double_click'', ''right_click'', ''drag'', ''type'', ''hotkey'',
                    ''scroll'', ''wait'', ''finished'', ''call_user'']"

definition needs_location :: "string list" where
  "needs_location = [''click'', ''double_click'', ''right_click'', ''drag'', ''type'', ''scroll'']"

section \<open>Concrete inputs\<close>

definition save_icon :: template_info where
  "save_icon = \<lparr>filename = ''templates/save_icon.png'', bounding_box = [100, 100, 140, 140],
                 elem_type = ''icon'', description = ''Saves the document''\<rparr>"

definition open_icon :: template_info where
  "open_icon = \<lparr>filename = ''templates/open_icon.png'', bounding_box = [10, 10, 50, 50],
                 elem_type = ''icon'', description = ''Opens a document''\<rparr>"

definition two_templates :: "(string \<times> template_info) list" where
  "two_templates = [(''Save Icon'', save_icon), (''Open Icon'', open_icon)]"

definition icon_raster :: gray_image where
  "icon_raster = [[10, 20], [30, 40]]"

definition two_hits :: score_map where
  "two_hits = [[1/2, 17/20, 99/100], [9/10, 1/10, 1/5]]"

text \<open>A matcher that answers every call with the score map \<open>two_hits\<close>.\<close>

definition stub_cv :: "gray_image cv2" where
  "stub_cv = \<lparr>cvtColor_gray = Inr,
              imread_gray = (\<lambda>f. if f = ''templates/save_icon.png'' then Some icon_raster else None),
              matchTemplate = (\<lambda>g t. Inr two_hits)\<rparr>"

text \<open>The reference matcher, with the one template file \<open>templates/save_icon.png\<close>.\<close>

definition ref_cv :: "gray_image cv2" where
  "ref_cv = \<lparr>cvtColor_gray = Inr,
             imread_gray = (\<lambda>f. if f = ''templates/save_icon.png'' then Some icon_raster else None),
             matchTemplate = cv2_matchTemplate\<rparr>"

text \<open>
  Four frames: the icon at offset (2, 0) behind a margin; a brighter look-alike at (0, 0)
  and the icon itself at (3, 0); the upper half of the icon; a strip lower but wider than
  the icon.
\<close>

definition margin_frame :: gray_image where
  "margin_frame = [[50, 50, 10, 20], [50, 50, 30, 40]]"


definition cropped_frame :: gray_image where
  "cropped_frame = [[10, 20]]"

definition strip_frame :: gray_image where
  "strip_frame = [[10, 20, 30]]"

definition ref_pil :: "gray_image pil" where
  "ref_pil = \<lparr>pil_crop = crop_padded, pil_save = save_nonempty, pil_size = raster_size\<rparr>"

definition element_of :: "string \<Rightarrow> int list \<Rightarrow> element" where
  "element_of name bbox =
     \<lparr>e_name = Some name, e_bounding_box = Some bbox, e_type = Some ''icon'',
      e_description = None\<rparr>"

definition offscreen_element :: element where
  "offscreen_element = element_of ''Save Icon'' [10, 10, 12, 12]"

definition onscreen_elements :: "element list" where
  "onscreen_elements = [element_of ''Save Icon'' [2, 0, 4, 2], element_of ''Empty'' [1, 1, 1, 2]]"



definition quoted :: "string \<Rightarrow> string" where
  "quoted s = [CHR 0x22] @ s @ [CHR 0x22]"

definition two_objects_reply :: string where
  "two_objects_reply =
     ''Either {'' @ quoted ''action'' @ '': 1} or {'' @ quoted ''action'' @ '': 2}.''"

text \<open>A decoder that accepts the empty object only.\<close>

definition only_empty_object :: "string \<Rightarrow> exn + json" where
  "only_empty_object s = (if s = ''{}'' then Inr (JObject []) else Inl (Exn ''Extra data''))"

definition no_kwargs :: kwargs where
  "no_kwargs = \<lparr>kw_end_location = None, kw_text = None, kw_keys = None, kw_direction = None,
                 kw_clicks = None, kw_seconds = None, kw_message = None\<rparr>"

definition idle_executor :: executor where
  "idle_executor = \<lparr>safety_level = ''high'', last_action_time = 0, actions_per_minute = 0,
                     action_history = []\<rparr>"

definition idle_world :: world where
  "idle_world = \<lparr>w_clock = 10, w_calls = [], w_output = []\<rparr>"

text \<open>An environment in which every \<open>dragTo\<close> raises.\<close>

definition failsafe :: "ext_call \<Rightarrow> exn option" where
  "failsafe c = (case c of DragTo x y \<Rightarrow> Some (Exn ''PyAutoGUI fail-safe triggered'') | _ \<Rightarrow> None)"

definition drag_kwargs :: kwargs where
  "drag_kwargs = no_kwargs\<lparr>kw_end_location := Some (9, 9)\<rparr>"

definition failed_drag_record :: action_record where
  "failed_drag_record =
     \<lparr>rec_type = ''drag'', rec_target = Some ''File'', rec_location = Some (5, 5),
      rec_params = drag_kwargs, rec_timestamp = 10\<rparr>"

text \<open>
  An image of vertical stripes and its negative, and two libraries: one with the structural
  similarity, one without (the fallback path).
\<close>

definition stripes :: gray_image where
  "stripes =
     [[0, 0, 0, 0, 255, 255, 255], [0, 0, 0, 0, 255, 255, 255], [0, 0, 0, 0, 255, 255, 255],
      [0, 0, 0, 0, 255, 255, 255], [0, 0, 0, 0, 255, 255, 255], [0, 0, 0, 0, 255, 255, 255],
      [0, 0, 0, 0, 255, 255, 255]]"

definition stripes_negative :: gray_image where
  "stripes_negative =
     [[255, 255, 255, 255, 0, 0, 0], [255, 255, 255, 255, 0, 0, 0], [255, 255, 255, 255, 0, 0, 0],
      [255, 255, 255, 255, 0, 0, 0], [255, 255, 255, 255, 0, 0, 0], [255, 255, 255, 255, 0, 0, 0],
      [255, 255, 255, 255, 0, 0, 0]]"

definition ssim_lib :: "gray_image simlib" where
  "ssim_lib = \<lparr>rgb2gray = Inr, cv_resize = (\<lambda>g w h. Inr g), skimage_ssim = Some ssim_ref,
               match_template = cv2_matchTemplate\<rparr>"

definition fallback_lib :: "gray_image simlib" where
  "fallback_lib = \<lparr>rgb2gray = Inr, cv_resize = (\<lambda>g w h. Inr g), skimage_ssim = None,
                   match_template = cv2_matchTemplate\<rparr>"

section \<open>Properties of the template matcher\<close>

subsection \<open>The row-major scan\<close>

text \<open>
  The first point \<open>np.where\<close> lists is a qualifying cell, and every cell before it in
  row-major order is below the threshold; conversely such a cell is the first point listed.
\<close>

lemma row_hits_Cons:
  "row_hits c x0 vs = x # xs \<Longrightarrow>
     x0 \<le> x \<and> x - x0 < length vs \<and> c \<le> vs ! (x - x0) \<and> (\<forall>i < x - x0. vs ! i < c)"
proof (induction vs arbitrary: x0)
  case Nil
  then show ?case by simp
next
  case (Cons v vs)
  show ?case
  proof (cases "c \<le> v")
    case True
    with Cons.prems show ?thesis by simp
  next
    case False
    with Cons.prems have "row_hits c (x0 + 1) vs = x # xs" by simp
    from Cons.IH [OF this]
    have a: "x0 + 1 \<le> x" and b: "x - (x0 + 1) < length vs"
      and c: "c \<le> vs ! (x - (x0 + 1))" and d: "\<forall>i < x - (x0 + 1). vs ! i < c"
      by auto
    from a have e: "x - x0 = Suc (x - (x0 + 1))" by simp
    have "\<forall>i < x - x0. (v # vs) ! i < c"
    proof (intro allI impI)
      fix i assume "i < x - x0"
      then show "(v # vs) ! i < c"
        using False d e by (cases i) auto
    qed
    with a b c e show ?thesis by simp
  qed
qed

lemma row_hits_Nil: "row_hits c x0 vs = [] \<longleftrightarrow> (\<forall>v \<in> set vs. v < c)"
  by (induction vs arbitrary: x0) auto

lemma where_ge_from_Nil:
  "where_ge_from c y0 rs = [] \<longleftrightarrow> (\<forall>r \<in> set rs. \<forall>v \<in> set r. v < c)"
  by (induction rs arbitrary: y0) (auto simp: row_hits_Nil)

lemma where_ge_from_Cons:
  "where_ge_from c y0 rs = (x, y) # ps \<Longrightarrow>
     y0 \<le> y \<and> y - y0 < length rs \<and> x < length (rs ! (y - y0)) \<and> c \<le> rs ! (y - y0) ! x \<and>
     (\<forall>i < x. rs ! (y - y0) ! i < c) \<and> (\<forall>j < y - y0. \<forall>v \<in> set (rs ! j). v < c)"
proof (induction rs arbitrary: y0)
  case Nil
  then show ?case by simp
next
  case (Cons r rs)
  show ?case
  proof (cases "row_hits c 0 r")
    case Nil
    with Cons.prems have "where_ge_from c (y0 + 1) rs = (x, y) # ps" by simp
    from Cons.IH [OF this]
    have a: "y0 + 1 \<le> y" and b: "y - (y0 + 1) < length rs"
      and c: "x < length (rs ! (y - (y0 + 1)))" and d: "c \<le> rs ! (y - (y0 + 1)) ! x"
      and e: "\<forall>i < x. rs ! (y - (y0 + 1)) ! i < c"
      and f: "\<forall>j < y - (y0 + 1). \<forall>v \<in> set (rs ! j). v < c"
      by auto
    from a have g: "y - y0 = Suc (y - (y0 + 1))" by simp
    from Nil have h: "\<forall>v \<in> set r. v < c" by (simp add: row_hits_Nil)
    have "\<forall>j < y - y0. \<forall>v \<in> set ((r # rs) ! j). v < c"
    proof (intro allI impI)
      fix j assume "j < y - y0"
      then show "\<forall>v \<in> set ((r # rs) ! j). v < c"
        using f g h by (cases j) auto
    qed
    with a b c d e g show ?thesis by simp
  next
    case (Cons x' xs')
    with Cons.prems have "x' = x" "y = y0" by auto
    with row_hits_Cons [OF Cons] show ?thesis by simp
  qed
qed

lemma np_where_ge_first:
  assumes "np_where_ge result c = (x, y) # ps"
  shows "y < length result \<and> x < length (result ! y) \<and> c \<le> result ! y ! x \<and>
     (\<forall>y' x'. y' < length result \<longrightarrow> x' < length (result ! y') \<longrightarrow>
         (y' < y \<or> (y' = y \<and> x' < x)) \<longrightarrow> result ! y' ! x' < c)"
  using where_ge_from_Cons [of c 0 result x y ps] assms
  by (auto simp: np_where_ge_def)

lemma np_where_ge_nonempty:
  "y < length result \<Longrightarrow> x < length (result ! y) \<Longrightarrow> c \<le> result ! y ! x
     \<Longrightarrow> np_where_ge result c \<noteq> []"
  unfolding np_where_ge_def where_ge_from_Nil
  by (metis not_le nth_mem)

lemma np_where_ge_first_intro:
  assumes "y < length result" "x < length (result ! y)" "c \<le> result ! y ! x"
    and "\<forall>y' x'. y' < length result \<longrightarrow> x' < length (result ! y') \<longrightarrow>
         (y' < y \<or> (y' = y \<and> x' < x)) \<longrightarrow> result ! y' ! x' < c"
  shows "\<exists>ps. np_where_ge result c = (x, y) # ps"
proof -
  from np_where_ge_nonempty [OF assms(1-3)]
  obtain x0 y0 ps where eq: "np_where_ge result c = (x0, y0) # ps"
    by (cases "np_where_ge result c") auto
  note f = np_where_ge_first [OF eq]
  have "\<not> (y0 < y \<or> (y0 = y \<and> x0 < x))"
  proof
    assume "y0 < y \<or> (y0 = y \<and> x0 < x)"
    with assms(4) f have "result ! y0 ! x0 < c" by blast
    with f show False by simp
  qed
  moreover have "\<not> (y < y0 \<or> (y = y0 \<and> x < x0))"
  proof
    assume "y < y0 \<or> (y = y0 \<and> x < x0)"
    with f assms(1,2) have "result ! y ! x < c" by blast
    with assms(3) show False by simp
  qed
  ultimately have "x0 = x \<and> y0 = y" by auto
  with eq show ?thesis by simp
qed

subsection \<open>The loop over the templates\<close>

text \<open>
  When the keys are distinct, the entry of a name depends on that name's template alone, and
  the printed lines are those of the templates in order.
\<close>

lemma scan_points_fresh:
  "locations name = None \<Longrightarrow>
     scan_points locations name template result pts =
       (case pts of [] \<Rightarrow> locations | pt # _ \<Rightarrow> locations(name \<mapsto> entry_at template result pt))"
  by (cases pts) (simp_all add: entry_at_def split_beta Let_def)

lemma scan_points_present:
  "locations name \<noteq> None \<Longrightarrow> scan_points locations name template result pts = locations"
  by (induction pts) (auto simp: split_beta Let_def)

lemma template_step_fst:
  "fst (template_step cv g conf (locations, printed) (name, info)) =
     (case locations name of
        Some m \<Rightarrow> locations
      | None \<Rightarrow> (case match_one cv g conf info of
                   None \<Rightarrow> locations
                 | Some m \<Rightarrow> locations(name \<mapsto> m)))"
  by (auto simp: template_step_def match_one_def scan_points_fresh scan_points_present
      split: option.splits sum.splits list.splits)

lemma template_step_snd:
  "snd (template_step cv g conf (locations, printed) item) = printed @ step_print cv g item"
  by (cases item) (auto simp: template_step_def step_print_def split: option.splits sum.splits)

lemma foldl_step_snd:
  "snd (foldl (template_step cv g conf) st ts) = snd st @ concat (map (step_print cv g) ts)"
proof (induction ts arbitrary: st)
  case Nil
  then show ?case by simp
next
  case (Cons t ts)
  obtain locations printed where st: "st = (locations, printed)" by (cases st)
  show ?case
    by (simp add: Cons.IH st template_step_snd)
qed

lemma foldl_step_fst:
  "distinct (map fst ts) \<Longrightarrow>
     fst (foldl (template_step cv g conf) st ts) n =
       (case fst st n of
          Some m \<Rightarrow> Some m
        | None \<Rightarrow> (case map_of ts n of
                     None \<Rightarrow> None
                   | Some info \<Rightarrow> match_one cv g conf info))"
proof (induction ts arbitrary: st)
  case Nil
  then show ?case by (simp split: option.splits)
next
  case (Cons t ts)
  obtain locations printed where st: "st = (locations, printed)" by (cases st)
  obtain name info where t: "t = (name, info)" by (cases t)
  from Cons.prems have d: "distinct (map fst ts)" and nm: "name \<notin> fst ` set ts"
    by (auto simp: t)
  from nm have mo: "map_of ts name = None"
    by (simp add: map_of_eq_None_iff)
  let ?st' = "template_step cv g conf (locations, printed) (name, info)"
  have "fst (foldl (template_step cv g conf) st (t # ts)) n =
        (case fst ?st' n of Some m \<Rightarrow> Some m
         | None \<Rightarrow> (case map_of ts n of None \<Rightarrow> None | Some info \<Rightarrow> match_one cv g conf info))"
    using Cons.IH [OF d, of ?st'] by (simp add: st t)
  also have "\<dots> = (case fst st n of Some m \<Rightarrow> Some m
         | None \<Rightarrow> (case map_of (t # ts) n of None \<Rightarrow> None | Some info \<Rightarrow> match_one cv g conf info))"
    using mo by (auto simp: template_step_fst st t split: option.splits)
  finally show ?case .
qed

lemma find_templates_on_screen_eq:
  assumes "distinct (map fst templates)"
    and "cvtColor_gray cv screenshot = Inr g"
  shows "find_templates_on_screen cv screenshot templates conf =
           Inr (\<lambda>n. case map_of templates n of None \<Rightarrow> None | Some info \<Rightarrow> match_one cv g conf info,
                concat (map (step_print cv g) templates))"
proof -
  let ?r = "foldl (template_step cv g conf) (Map.empty, []) templates"
  have "fst ?r = (\<lambda>n. case map_of templates n of None \<Rightarrow> None | Some info \<Rightarrow> match_one cv g conf info)"
    by (rule ext) (simp add: foldl_step_fst [OF assms(1)])
  moreover have "snd ?r = concat (map (step_print cv g) templates)"
    by (simp add: foldl_step_snd)
  ultimately have "?r = (\<lambda>n. case map_of templates n of None \<Rightarrow> None | Some info \<Rightarrow> match_one cv g conf info,
                concat (map (step_print cv g) templates))"
    by (metis prod.collapse)
  then show ?thesis
    by (simp add: find_templates_on_screen_def assms(2))
qed

lemma match_one_SomeD:
  assumes "match_one cv g conf info = Some m"
  shows "\<exists>template result pt ps. imread_gray cv (filename info) = Some template \<and>
           matchTemplate cv g template = Inr result \<and> np_where_ge result conf = pt # ps \<and>
           m = entry_at template result pt"
  using assms by (auto simp: match_one_def split: option.splits sum.splits list.splits)

lemma match_one_first:
  assumes "imread_gray cv (filename info) = Some template"
    and "matchTemplate cv g template = Inr result"
    and "np_where_ge result conf = pt # ps"
  shows "match_one cv g conf info = Some (entry_at template result pt)"
  using assms by (simp add: match_one_def)

lemma find_single:
  assumes "cvtColor_gray cv screenshot = Inr g"
    and "imread_gray cv (filename info) = Some template"
    and "matchTemplate cv g template = Inr result"
    and "np_where_ge result conf = pt # ps"
  shows "find_templates_on_screen cv screenshot [(name, info)] conf =
           Inr ([name \<mapsto> entry_at template result pt], [])"
  using assms
  by (simp add: find_templates_on_screen_def template_step_def entry_at_def split_beta Let_def)

subsection \<open>First qualifying cell in row-major order\<close>

text \<open>
  Claim C2. When some cell of the score map reaches the threshold, the entry stored for the
  template is the one of the first qualifying cell in row-major order: that cell reaches the
  threshold, and every cell in an earlier row, or further left in the same row, is below it.
  The scores of qualifying cells are never compared with each other, so a later cell with a
  higher score does not win. The result is a function of the inputs, so repeated runs on the
  same input agree.
\<close>

theorem find_templates_first_in_row_major:
  assumes "distinct (map fst templates)"
    and "(name, info) \<in> set templates"
    and "cvtColor_gray cv screenshot = Inr g"
    and "imread_gray cv (filename info) = Some template"
    and "matchTemplate cv g template = Inr result"
    and "\<exists>y x. y < length result \<and> x < length (result ! y) \<and> conf \<le> result ! y ! x"
  shows "\<exists>locations printed m px py.
      find_templates_on_screen cv screenshot templates conf = Inr (locations, printed) \<and>
      locations name = Some m \<and>
      box m = (px, py, px + snd (shape template), py + fst (shape template)) \<and>
      confidence m = result ! py ! px \<and>
      py < length result \<and> px < length (result ! py) \<and> conf \<le> result ! py ! px \<and>
      (\<forall>y x. y < length result \<longrightarrow> x < length (result ! y) \<longrightarrow>
          (y < py \<or> (y = py \<and> x < px)) \<longrightarrow> result ! y ! x < conf)"
proof -
  from assms(6) have "np_where_ge result conf \<noteq> []"
    by (auto dest: np_where_ge_nonempty)
  then obtain px py ps where hit: "np_where_ge result conf = (px, py) # ps"
    by (cases "np_where_ge result conf") auto
  have mo: "map_of templates name = Some info"
    using assms(1,2) by simp
  have m1: "match_one cv g conf info = Some (entry_at template result (px, py))"
    by (rule match_one_first [OF assms(4,5) hit])
  let ?locations = "\<lambda>n. case map_of templates n of None \<Rightarrow> None
                        | Some info \<Rightarrow> match_one cv g conf info"
  have eq: "find_templates_on_screen cv screenshot templates conf =
           Inr (?locations, concat (map (step_print cv g) templates))"
    by (rule find_templates_on_screen_eq [OF assms(1,3)])
  have l: "?locations name = Some (entry_at template result (px, py))"
    by (simp add: mo m1)
  note f = np_where_ge_first [OF hit]
  show ?thesis
    apply (rule exI [of _ ?locations])
    apply (rule exI [of _ "concat (map (step_print cv g) templates)"])
    apply (rule exI [of _ "entry_at template result (px, py)"])
    apply (rule exI [of _ px])
    apply (rule exI [of _ py])
    using eq l f by (simp add: entry_at_def)
qed

text \<open>
  An instance: in \<open>two_hits\<close> the cells (1, 0), (2, 0) and (0, 1) reach the threshold 0.8.
  The entry is the one of (1, 0), with score 0.85, although (2, 0) scores 0.99.
\<close>

lemma stub_example:
  "find_templates_on_screen stub_cv [] two_templates (4/5) =
     Inr ([''Save Icon'' \<mapsto> \<lparr>center = (2, 1), box = (1, 0, 3, 2), confidence = 17/20\<rparr>],
          [''Could not load template '' @ [CHR 0x27] @ ''templates/open_icon.png'' @ [CHR 0x27]])"
  by (simp add: find_templates_on_screen_def template_step_def stub_cv_def save_icon_def
      open_icon_def two_templates_def icon_raster_def two_hits_def np_where_ge_def shape_def
      numeral_2_eq_2 numeral_3_eq_3)

theorem find_templates_first_in_row_major_witness:
  "distinct (map fst [(''Save Icon'', save_icon)]) \<and>
   (''Save Icon'', save_icon) \<in> set [(''Save Icon'', save_icon)] \<and>
   cvtColor_gray stub_cv [] = Inr [] \<and>
   imread_gray stub_cv (filename save_icon) = Some icon_raster \<and>
   matchTemplate stub_cv [] icon_raster = Inr two_hits \<and>
   (\<exists>y x. y < length two_hits \<and> x < length (two_hits ! y) \<and> 4/5 \<le> two_hits ! y ! x) \<and>
   (\<exists>locations printed m px py.
      find_templates_on_screen stub_cv [] [(''Save Icon'', save_icon)] (4/5) = Inr (locations, printed) \<and>
      locations ''Save Icon'' = Some m \<and>
      box m = (px, py, px + snd (shape icon_raster), py + fst (shape icon_raster)) \<and>
      confidence m = two_hits ! py ! px \<and>
      py < length two_hits \<and> px < length (two_hits ! py) \<and> 4/5 \<le> two_hits ! py ! px \<and>
      (\<forall>y x. y < length two_hits \<longrightarrow> x < length (two_hits ! y) \<longrightarrow>
          (y < py \<or> (y = py \<and> x < px)) \<longrightarrow> two_hits ! y ! x < 4/5))"
proof -
  have h1: "distinct (map fst [(''Save Icon'', save_icon)])" by simp
  have h2: "(''Save Icon'', save_icon) \<in> set [(''Save Icon'', save_icon)]" by simp
  have h3: "cvtColor_gray stub_cv [] = Inr []" by (simp add: stub_cv_def)
  have h4: "imread_gray stub_cv (filename save_icon) = Some icon_raster"
    by (simp add: stub_cv_def save_icon_def)
  have h5: "matchTemplate stub_cv [] icon_raster = Inr two_hits" by (simp add: stub_cv_def)
  have "(0::nat) < length two_hits \<and> (1::nat) < length (two_hits ! 0) \<and> 4/5 \<le> two_hits ! 0 ! 1"
    by (simp add: two_hits_def)
  then have h6: "\<exists>y x. y < length two_hits \<and> x < length (two_hits ! y) \<and> 4/5 \<le> two_hits ! y ! x"
    by blast
  from find_templates_first_in_row_major [OF h1 h2 h3 h4 h5 h6] h1 h2 h3 h4 h5 h6
  show ?thesis by blast
qed

subsection \<open>Center, box and confidence of an entry\<close>

text \<open>
  Claim C3. Every entry of the returned dictionary comes from a template whose file was read
  and matched; with \<open>(px, py)\<close> the first point listed for its score map, a cell of the map,
  and \<open>(h, w)\<close> the shape of the template, the center is
  \<open>(px + w div 2, py + h div 2)\<close>, the box is \<open>(px, py, px + w, py + h)\<close>, and the
  confidence is the score read from the map at row \<open>py\<close>, column \<open>px\<close>. The confidence is
  at least the threshold, and at most 1 when no score of the map exceeds 1, as holds for a
  normalised correlation.
\<close>

theorem find_templates_entry_geometry:
  assumes "distinct (map fst templates)"
    and "find_templates_on_screen cv screenshot templates conf = Inr (locations, printed)"
    and "locations name = Some m"
  shows "\<exists>g info template result px py h w.
      cvtColor_gray cv screenshot = Inr g \<and> (name, info) \<in> set templates \<and>
      imread_gray cv (filename info) = Some template \<and>
      matchTemplate cv g template = Inr result \<and> shape template = (h, w) \<and>
      np_where_ge result conf \<noteq> [] \<and> hd (np_where_ge result conf) = (px, py) \<and>
      py < length result \<and> px < length (result ! py) \<and>
      center m = (px + w div 2, py + h div 2) \<and>
      box m = (px, py, px + w, py + h) \<and>
      confidence m = result ! py ! px \<and>
      conf \<le> confidence m \<and>
      ((\<forall>row \<in> set result. \<forall>v \<in> set row. v \<le> 1) \<longrightarrow> confidence m \<le> 1)"
proof -
  from assms(2) obtain g where g: "cvtColor_gray cv screenshot = Inr g"
    by (auto simp: find_templates_on_screen_def split: sum.splits)
  from find_templates_on_screen_eq [OF assms(1) g, of conf] assms(2)
  have "locations = (\<lambda>n. case map_of templates n of None \<Rightarrow> None
                        | Some info \<Rightarrow> match_one cv g conf info)"
    by simp
  with assms(3) obtain info where mo: "map_of templates name = Some info"
    and m1: "match_one cv g conf info = Some m"
    by (auto split: option.splits)
  from match_one_SomeD [OF m1] obtain template result pt ps where
    t: "imread_gray cv (filename info) = Some template"
    and r: "matchTemplate cv g template = Inr result"
    and hit: "np_where_ge result conf = pt # ps"
    and m: "m = entry_at template result pt"
    by blast
  obtain px py where pt: "pt = (px, py)" by (cases pt)
  obtain h w where s: "shape template = (h, w)" by (cases "shape template")
  note f = np_where_ge_first [OF hit [unfolded pt]]
  have in_range: "result ! py \<in> set result" "result ! py ! px \<in> set (result ! py)"
    using f by simp_all
  have le1: "(\<forall>row \<in> set result. \<forall>v \<in> set row. v \<le> 1) \<longrightarrow> result ! py ! px \<le> 1"
    using in_range by blast
  show ?thesis
    apply (rule exI [of _ g])
    apply (rule exI [of _ info])
    apply (rule exI [of _ template])
    apply (rule exI [of _ result])
    apply (rule exI [of _ px])
    apply (rule exI [of _ py])
    apply (rule exI [of _ h])
    apply (rule exI [of _ w])
    using g map_of_SomeD [OF mo] t r s hit f le1
    by (simp add: m pt entry_at_def)
qed

theorem find_templates_entry_geometry_witness:
  "distinct (map fst two_templates) \<and>
   find_templates_on_screen stub_cv [] two_templates (4/5) =
     Inr ([''Save Icon'' \<mapsto> \<lparr>center = (2, 1), box = (1, 0, 3, 2), confidence = 17/20\<rparr>],
          [''Could not load template '' @ [CHR 0x27] @ ''templates/open_icon.png'' @ [CHR 0x27]]) \<and>
   (\<exists>g info template result px py h w.
      cvtColor_gray stub_cv [] = Inr g \<and> (''Save Icon'', info) \<in> set two_templates \<and>
      imread_gray stub_cv (filename info) = Some template \<and>
      matchTemplate stub_cv g template = Inr result \<and> shape template = (h, w) \<and>
      np_where_ge result (4/5) \<noteq> [] \<and> hd (np_where_ge result (4/5)) = (px, py) \<and>
      py < length result \<and> px < length (result ! py) \<and>
      (2, 1) = (px + w div 2, py + h div 2) \<and>
      (1, 0, 3, 2) = (px, py, px + w, py + h) \<and>
      17/20 = result ! py ! px \<and>
      4/5 \<le> (17/20 :: real))"
proof -
  let ?m = "\<lparr>center = (2, 1), box = (1, 0, 3, 2), confidence = 17/20\<rparr>"
  have h1: "distinct (map fst two_templates)"
    by (simp add: two_templates_def)
  have h3: "[''Save Icon'' \<mapsto> ?m] ''Save Icon'' = Some ?m" by simp
  from find_templates_entry_geometry [OF h1 stub_example h3]
  have "\<exists>g info template result px py h w.
      cvtColor_gray stub_cv [] = Inr g \<and> (''Save Icon'', info) \<in> set two_templates \<and>
      imread_gray stub_cv (filename info) = Some template \<and>
      matchTemplate stub_cv g template = Inr result \<and> shape template = (h, w) \<and>
      np_where_ge result (4/5) \<noteq> [] \<and> hd (np_where_ge result (4/5)) = (px, py) \<and>
      py < length result \<and> px < length (result ! py) \<and>
      (2, 1) = (px + w div 2, py + h div 2) \<and>
      (1, 0, 3, 2) = (px, py, px + w, py + h) \<and>
      17/20 = result ! py ! px \<and>
      4/5 \<le> (17/20 :: real)"
    by simp
  with h1 stub_example show ?thesis by (intro conjI)
qed

subsection \<open>Templates whose file is missing\<close>



subsection \<open>The reference matcher\<close>

text \<open>
  A template that is not of one colour correlates perfectly with itself; a window whose
  deviations correlate negatively, or not at all, with the template's scores at most 0.
\<close>

lemma sum_list_zip_self:
  "(\<Sum>(a, b) \<leftarrow> zip xs xs. a * b) = (\<Sum>a \<leftarrow> xs. a * (a::real))"
  by (induction xs) simp_all

lemma sum_list_squares_nonneg: "0 \<le> (\<Sum>a \<leftarrow> xs. a * (a::real))"
  by (induction xs) simp_all

lemma sum_list_squares_pos:
  "x \<in> set xs \<Longrightarrow> x \<noteq> 0 \<Longrightarrow> 0 < (\<Sum>a \<leftarrow> xs. a * (a::real))"
proof (induction xs)
  case Nil
  then show ?case by simp
next
  case (Cons a xs)
  show ?case
  proof (cases "x = a")
    case True
    with Cons.prems have "0 < a * a" by (auto simp: zero_less_mult_iff)
    then have "0 < a * a + (\<Sum>a \<leftarrow> xs. a * a)"
      using sum_list_squares_nonneg [of xs] by (rule add_pos_nonneg)
    then show ?thesis by simp
  next
    case False
    with Cons have "0 < (\<Sum>a \<leftarrow> xs. a * a)" by simp
    moreover have "0 \<le> a * a" by simp
    ultimately have "0 < a * a + (\<Sum>a \<leftarrow> xs. a * a)" by (rule add_nonneg_pos [rotated])
    then show ?thesis by simp
  qed
qed

lemma deviation_nonzero:
  assumes "a \<in> set t" "b \<in> set t" "a \<noteq> b"
  shows "\<exists>d \<in> set (deviations t). d \<noteq> 0"
proof -
  have "real a \<noteq> mean t \<or> real b \<noteq> mean t"
    using assms(3) by auto
  then show ?thesis
    using assms(1,2) by (auto simp: deviations_def)
qed

lemma ccoeff_normed_self:
  assumes "a \<in> set t" "b \<in> set t" "a \<noteq> b"
  shows "ccoeff_normed t t = 1"
proof -
  let ?S = "\<Sum>d \<leftarrow> deviations t. d * d"
  from deviation_nonzero [OF assms] obtain d where "d \<in> set (deviations t)" "d \<noteq> 0"
    by blast
  then have pos: "0 < ?S" by (rule sum_list_squares_pos)
  have den: "sqrt (?S * ?S) = ?S"
    using pos by simp
  show ?thesis
    using pos by (simp add: ccoeff_normed_def Let_def sum_list_zip_self den del: real_sqrt_mult_self)
qed



lemma shape_rect: "rect a h w \<Longrightarrow> 0 < h \<Longrightarrow> shape a = (h, w)"
  by (cases a) (auto simp: rect_def shape_def)

lemma cv2_matchTemplate_fits:
  assumes "shape frame = (H, W)" "shape templ = (h, w)" "h \<le> H" "w \<le> W"
  shows "cv2_matchTemplate frame templ =
           Inr (score_rows (H - h + 1) (W - w + 1)
                  (\<lambda>x y. ccoeff_normed (concat templ) (concat (window frame x y h w))))"
  using assms by (simp add: cv2_matchTemplate_def Let_def)

lemma cv2_matchTemplate_swapped:
  assumes "shape frame = (H, W)" "shape templ = (h, w)" "H \<le> h" "W \<le> w" "H < h \<or> W < w"
  shows "cv2_matchTemplate frame templ =
           Inr (score_rows (h - H + 1) (w - W + 1)
                  (\<lambda>x y. ccoeff_normed (concat frame) (concat (window templ x y H W))))"
  using assms by (auto simp: cv2_matchTemplate_def Let_def)

lemma cv2_matchTemplate_raises:
  assumes "shape frame = (H, W)" "shape templ = (h, w)" "(H < h \<and> w < W) \<or> (W < w \<and> h < H)"
  shows "\<exists>e. cv2_matchTemplate frame templ = Inl e"
  using assms by (auto simp: cv2_matchTemplate_def Let_def)

lemma length_score_rows: "length (score_rows n m f) = n"
  by (simp add: score_rows_def)

lemma length_score_rows_nth: "y < n \<Longrightarrow> length (score_rows n m f ! y) = m"
  by (simp add: score_rows_def)

lemma score_rows_nth: "y < n \<Longrightarrow> x < m \<Longrightarrow> score_rows n m f ! y ! x = f x y"
  by (simp add: score_rows_def)




subsection \<open>A template embedded unchanged in the frame\<close>




subsection \<open>A frame smaller than the template\<close>

text \<open>
  Claim C4 does not hold as stated. The function has no check of the sizes of its own; it
  relies on \<open>cv2.matchTemplate\<close> raising. OpenCV raises only when the frame is smaller in
  one dimension and larger in the other. \<open>cropped_frame\<close> is the upper half of the icon,
  smaller than the template in height and equal in width: OpenCV searches the frame inside
  the template, the score at (0, 0) is 1, and an entry is returned.
\<close>

theorem undersized_frame_counterexample:
  "shape cropped_frame = (1, 2) \<and> shape icon_raster = (2, 2) \<and>
   find_templates_on_screen ref_cv cropped_frame [(''Save Icon'', save_icon)] (4/5) =
     Inr ([''Save Icon'' \<mapsto> \<lparr>center = (1, 1), box = (0, 0, 2, 2), confidence = 1\<rparr>], [])"
proof -
  let ?result = "score_rows (2 - 1 + 1) (2 - 2 + 1)
                   (\<lambda>x y. ccoeff_normed (concat cropped_frame) (concat (window icon_raster x y 1 2)))"
  have sf: "shape cropped_frame = (1, 2)" by (simp add: shape_def cropped_frame_def)
  have st: "shape icon_raster = (2, 2)" by (simp add: shape_def icon_raster_def)
  have r: "matchTemplate ref_cv cropped_frame icon_raster = Inr ?result"
    using cv2_matchTemplate_swapped [OF sf st] by (simp add: ref_cv_def)
  have "ccoeff_normed (concat cropped_frame) (concat (window icon_raster 0 0 1 2)) =
        ccoeff_normed [10, 20] [10, 20]"
    by (simp add: cropped_frame_def icon_raster_def window_def)
  also have "\<dots> = 1"
    by (rule ccoeff_normed_self [of 10 _ 20]) simp_all
  finally have v: "?result ! 0 ! 0 = 1"
    by (simp add: score_rows_nth)
  have y: "0 < length ?result" by (simp add: length_score_rows)
  have x: "0 < length (?result ! 0)" by (simp add: length_score_rows_nth)
  have c: "4/5 \<le> ?result ! 0 ! 0" unfolding v by simp
  have b: "\<forall>y' x'. y' < length ?result \<longrightarrow> x' < length (?result ! y') \<longrightarrow>
         (y' < 0 \<or> (y' = 0 \<and> x' < 0)) \<longrightarrow> ?result ! y' ! x' < 4/5"
    by simp
  from np_where_ge_first_intro [OF y x c b]
  obtain ps where hit: "np_where_ge ?result (4/5) = (0, 0) # ps" ..
  have "find_templates_on_screen ref_cv cropped_frame [(''Save Icon'', save_icon)] (4/5) =
           Inr ([''Save Icon'' \<mapsto> entry_at icon_raster ?result (0, 0)], [])"
    by (rule find_single [OF _ _ r hit]) (simp_all add: ref_cv_def save_icon_def)
  moreover have "entry_at icon_raster ?result (0, 0) =
      \<lparr>center = (1, 1), box = (0, 0, 2, 2), confidence = 1\<rparr>"
    using v by (simp add: entry_at_def st)
  ultimately show ?thesis using sf st by simp
qed

text \<open>
  Claim C4, amended. When the frame is strictly smaller than the template in one dimension
  and strictly larger in the other, \<open>cv2.matchTemplate\<close> raises, the exception is caught
  inside the loop, the line \<open>Error finding template ...\<close> is printed, the function returns
  its dictionary, and the dictionary has no entry for that template.
\<close>

theorem find_templates_undersized_frame:
  assumes "distinct (map fst templates)"
    and "(name, info) \<in> set templates"
    and "cvtColor_gray cv screenshot = Inr frame"
    and "imread_gray cv (filename info) = Some templ"
    and "matchTemplate cv = cv2_matchTemplate"
    and "shape frame = (H, W)" and "shape templ = (h, w)"
    and "(H < h \<and> w < W) \<or> (W < w \<and> h < H)"
  shows "\<exists>locations printed e.
           find_templates_on_screen cv screenshot templates conf = Inr (locations, printed) \<and>
           locations name = None \<and>
           matchTemplate cv frame templ = Inl e \<and>
           (''Error finding template '' @ name @ '': '' @ exn_text e) \<in> set printed"
proof -
  from cv2_matchTemplate_raises [OF assms(6,7,8)] assms(5)
  obtain e where e: "matchTemplate cv frame templ = Inl e" by auto
  have mo: "map_of templates name = Some info"
    using assms(1,2) by simp
  have m1: "match_one cv frame conf info = None"
    by (simp add: match_one_def assms(4) e)
  have p: "step_print cv frame (name, info) = [''Error finding template '' @ name @ '': '' @ exn_text e]"
    by (simp add: step_print_def assms(4) e)
  have "(''Error finding template '' @ name @ '': '' @ exn_text e)
          \<in> set (concat (map (step_print cv frame) templates))"
    using assms(2) p by (force simp: set_concat)
  then show ?thesis
    using find_templates_on_screen_eq [OF assms(1,3), of conf] mo m1 e by simp
qed

theorem find_templates_undersized_frame_witness:
  "distinct (map fst [(''Save Icon'', save_icon)]) \<and>
   (''Save Icon'', save_icon) \<in> set [(''Save Icon'', save_icon)] \<and>
   cvtColor_gray ref_cv strip_frame = Inr strip_frame \<and>
   imread_gray ref_cv (filename save_icon) = Some icon_raster \<and>
   matchTemplate ref_cv = cv2_matchTemplate \<and>
   shape strip_frame = (1, 3) \<and> shape icon_raster = (2, 2) \<and>
   (((1::nat) < 2 \<and> (2::nat) < 3) \<or> ((3::nat) < 2 \<and> (2::nat) < 1)) \<and>
   (\<exists>locations printed e.
      find_templates_on_screen ref_cv strip_frame [(''Save Icon'', save_icon)] (4/5) =
        Inr (locations, printed) \<and>
      locations ''Save Icon'' = None \<and>
      matchTemplate ref_cv strip_frame icon_raster = Inl e \<and>
      (''Error finding template '' @ ''Save Icon'' @ '': '' @ exn_text e) \<in> set printed)"
proof -
  have h1: "distinct (map fst [(''Save Icon'', save_icon)])" by simp
  have h2: "(''Save Icon'', save_icon) \<in> set [(''Save Icon'', save_icon)]" by simp
  have h3: "cvtColor_gray ref_cv strip_frame = Inr strip_frame" by (simp add: ref_cv_def)
  have h4: "imread_gray ref_cv (filename save_icon) = Some icon_raster"
    by (simp add: ref_cv_def save_icon_def)
  have h5: "matchTemplate ref_cv = cv2_matchTemplate" by (simp add: ref_cv_def)
  have h6: "shape strip_frame = (1, 3)" by (simp add: shape_def strip_frame_def)
  have h7: "shape icon_raster = (2, 2)" by (simp add: shape_def icon_raster_def)
  have h8: "((1::nat) < 2 \<and> (2::nat) < 3) \<or> ((3::nat) < 2 \<and> (2::nat) < 1)" by simp
  from find_templates_undersized_frame [OF h1 h2 h3 h4 h5 h6 h7 h8, of "4/5"]
  show ?thesis using h1 h2 h3 h4 h5 h6 h7 h8 by blast
qed

section \<open>Properties of the reply parser\<close>

text \<open>
  \<open>find\<close> returns the index of the first occurrence, \<open>rfind\<close> that of the last, and the
  slice between them is the text from the first opening brace to the last closing brace.
\<close>

lemma py_find_from_absent: "c \<notin> set s \<Longrightarrow> py_find_from c i s = - 1"
  by (induction s arbitrary: i) auto

lemma py_find_from_first:
  "c \<notin> set pre \<Longrightarrow> py_find_from c i (pre @ c # rest) = i + int (length pre)"
  by (induction pre arbitrary: i) auto

lemma py_rfind_from_absent: "c \<notin> set s \<Longrightarrow> py_rfind_from c i s = - 1"
  by (induction s arbitrary: i) (auto simp: Let_def)

lemma py_rfind_from_last:
  "0 \<le> i \<Longrightarrow> c \<notin> set post \<Longrightarrow> py_rfind_from c i (pre @ c # post) = i + int (length pre)"
  by (induction pre arbitrary: i) (auto simp: Let_def py_rfind_from_absent)

lemma py_find_absent: "c \<notin> set s \<Longrightarrow> py_find s c = - 1"
  by (simp add: py_find_def py_find_from_absent)

lemma py_find_first: "c \<notin> set pre \<Longrightarrow> py_find (pre @ c # rest) c = int (length pre)"
  by (simp add: py_find_def py_find_from_first)

lemma py_rfind_last: "c \<notin> set post \<Longrightarrow> py_rfind (pre @ c # post) c = int (length pre)"
  by (simp add: py_rfind_def py_rfind_from_last)

lemma py_rfind_from_bounds:
  "0 \<le> i \<Longrightarrow> py_rfind_from c i s = - 1 \<or>
     (i \<le> py_rfind_from c i s \<and> py_rfind_from c i s < i + int (length s))"
proof (induction s arbitrary: i)
  case Nil
  then show ?case by simp
next
  case (Cons x xs)
  from Cons.prems have "0 \<le> i + 1" by simp
  from Cons.IH [OF this] show ?case
    by (auto simp: Let_def)
qed

lemma py_rfind_from_append_absent:
  "c \<notin> set post \<Longrightarrow> py_rfind_from c i (pre @ post) = py_rfind_from c i pre"
  by (induction pre arbitrary: i) (auto simp: Let_def py_rfind_from_absent)

lemma extract_json_str_None: "CHR ''{'' \<notin> set s \<Longrightarrow> extract_json_str s = None"
  by (simp add: extract_json_str_def py_find_absent)

lemma extract_json_str_span:
  assumes "CHR ''{'' \<notin> set pre" "CHR ''}'' \<notin> set post"
  shows "extract_json_str (pre @ CHR ''{'' # mid @ CHR ''}'' # post) = Some (CHR ''{'' # mid @ [CHR ''}''])"
proof -
  let ?s = "pre @ CHR ''{'' # mid @ CHR ''}'' # post"
  have f: "py_find ?s (CHR ''{'') = int (length pre)"
    using assms(1) by (rule py_find_first)
  have "?s = (pre @ CHR ''{'' # mid) @ CHR ''}'' # post" by simp
  then have r: "py_rfind ?s (CHR ''}'') = int (length (pre @ CHR ''{'' # mid))"
    using py_rfind_last [OF assms(2), of "pre @ CHR ''{'' # mid"] by simp
  have n: "nat (2 + (int (length pre) + int (length mid))) - length pre = Suc (Suc (length mid))"
    by simp
  show ?thesis
    by (simp add: extract_json_str_def f r Let_def py_slice_def slice_index_def n)
qed

lemma extract_json_str_unclosed:
  assumes "CHR ''{'' \<notin> set pre" "CHR ''}'' \<notin> set rest"
  shows "extract_json_str (pre @ CHR ''{'' # rest) = Some []"
proof -
  let ?s = "pre @ CHR ''{'' # rest"
  have f: "py_find ?s (CHR ''{'') = int (length pre)"
    using assms(1) by (rule py_find_first)
  have "CHR ''}'' \<notin> set (CHR ''{'' # rest)" using assms(2) by simp
  then have r: "py_rfind ?s (CHR ''}'') = py_rfind pre (CHR ''}'')"
    unfolding py_rfind_def by (rule py_rfind_from_append_absent)
  have b: "py_rfind pre (CHR ''}'') = - 1 \<or>
        (0 \<le> py_rfind pre (CHR ''}'') \<and> py_rfind pre (CHR ''}'') < int (length pre))"
    using py_rfind_from_bounds [of 0 "CHR ''}''" pre] by (simp add: py_rfind_def)
  then show ?thesis
    by (auto simp: extract_json_str_def f r Let_def py_slice_def slice_index_def)
qed

text \<open>
  Claim C6 does not hold as stated: the text handed to \<open>json.loads\<close> is not the first
  balanced bracketed substring. For a reply that holds two objects it reaches from the first
  opening brace to the last closing brace, across both objects, while the first balanced
  substring is the first object alone.
\<close>

theorem first_balanced_counterexample:
  "extract_json_str two_objects_reply =
     Some (''{'' @ quoted ''action'' @ '': 1} or {'' @ quoted ''action'' @ '': 2}'') \<and>
   first_balanced_object two_objects_reply = Some (''{'' @ quoted ''action'' @ '': 1}'')"
  by (simp add: extract_json_str_def two_objects_reply_def quoted_def py_find_def py_rfind_def
      Let_def py_slice_def slice_index_def first_balanced_object_def)

text \<open>
  Claim C6, amended. \<open>process_user_request\<close> hands to \<open>json.loads\<close> the text from the
  first opening brace of the reply through its last closing brace (the empty text when no
  closing brace follows the first opening brace). When the reply has no opening brace, the
  function returns the dictionary \<open>{"error": "Could not parse response"}\<close>; when
  \<open>json.loads\<close> raises on that text, or reading the reply raises, it prints a line and
  returns \<open>{"error": "Parse error: ..."}\<close>; otherwise it returns what \<open>json.loads\<close>
  returned. In every case it returns a value and raises nothing.
\<close>

theorem process_user_request_payload:
  "(CHR ''{'' \<notin> set text \<longrightarrow>
      process_user_request json_loads (Inr text) = (error_result ''Could not parse response'', [])) \<and>
   (\<forall>pre mid post.
      text = pre @ CHR ''{'' # mid @ CHR ''}'' # post \<and> CHR ''{'' \<notin> set pre \<and> CHR ''}'' \<notin> set post \<longrightarrow>
      extract_json_str text = Some (CHR ''{'' # mid @ [CHR ''}''])) \<and>
   (\<forall>pre rest.
      text = pre @ CHR ''{'' # rest \<and> CHR ''{'' \<notin> set pre \<and> CHR ''}'' \<notin> set rest \<longrightarrow>
      extract_json_str text = Some []) \<and>
   (\<forall>json_str e.
      extract_json_str text = Some json_str \<and> json_loads json_str = Inl e \<longrightarrow>
      process_user_request json_loads (Inr text) =
        (error_result (''Parse error: '' @ exn_text e), [''Error parsing action: '' @ exn_text e])) \<and>
   (\<forall>json_str action.
      extract_json_str text = Some json_str \<and> json_loads json_str = Inr action \<longrightarrow>
      process_user_request json_loads (Inr text) = (action, [])) \<and>
   (\<forall>e. process_user_request json_loads (Inl e) =
        (error_result (''Parse error: '' @ exn_text e), [''Error parsing action: '' @ exn_text e])) \<and>
   (\<forall>msg. has_key ''error'' (error_result msg))"
proof (intro conjI allI impI)
  assume "CHR ''{'' \<notin> set text"
  then show "process_user_request json_loads (Inr text) = (error_result ''Could not parse response'', [])"
    by (simp add: process_user_request_def extract_json_str_None)
next
  fix pre mid post
  assume "text = pre @ CHR ''{'' # mid @ CHR ''}'' # post \<and> CHR ''{'' \<notin> set pre \<and> CHR ''}'' \<notin> set post"
  then show "extract_json_str text = Some (CHR ''{'' # mid @ [CHR ''}''])"
    by (simp add: extract_json_str_span)
next
  fix pre rest
  assume "text = pre @ CHR ''{'' # rest \<and> CHR ''{'' \<notin> set pre \<and> CHR ''}'' \<notin> set rest"
  then show "extract_json_str text = Some []"
    by (simp add: extract_json_str_unclosed)
next
  fix json_str e
  assume "extract_json_str text = Some json_str \<and> json_loads json_str = Inl e"
  then show "process_user_request json_loads (Inr text) =
        (error_result (''Parse error: '' @ exn_text e), [''Error parsing action: '' @ exn_text e])"
    by (simp add: process_user_request_def parse_failed_def)
next
  fix json_str action
  assume "extract_json_str text = Some json_str \<and> json_loads json_str = Inr action"
  then show "process_user_request json_loads (Inr text) = (action, [])"
    by (simp add: process_user_request_def)
next
  fix e
  show "process_user_request json_loads (Inl e) =
        (error_result (''Parse error: '' @ exn_text e), [''Error parsing action: '' @ exn_text e])"
    by (simp add: process_user_request_def parse_failed_def)
next
  fix msg
  show "has_key ''error'' (error_result msg)"
    by (simp add: error_result_def)
qed

theorem process_user_request_payload_witness:
  "two_objects_reply = ''Either '' @ CHR ''{'' # (quoted ''action'' @ '': 1} or {'' @ quoted ''action'' @ '': 2'') @ CHR ''}'' # ''.'' \<and>
   CHR ''{'' \<notin> set ''Either '' \<and> CHR ''}'' \<notin> set ''.'' \<and>
   extract_json_str two_objects_reply =
     Some (CHR ''{'' # (quoted ''action'' @ '': 1} or {'' @ quoted ''action'' @ '': 2'') @ [CHR ''}'']) \<and>
   only_empty_object (CHR ''{'' # (quoted ''action'' @ '': 1} or {'' @ quoted ''action'' @ '': 2'') @ [CHR ''}'']) =
     Inl (Exn ''Extra data'') \<and>
   process_user_request only_empty_object (Inr two_objects_reply) =
     (error_result ''Parse error: Extra data'', [''Error parsing action: Extra data'']) \<and>
   CHR ''{'' \<notin> set ''no payload here'' \<and>
   process_user_request only_empty_object (Inr ''no payload here'') =
     (error_result ''Could not parse response'', [])"
proof -
  let ?mid = "quoted ''action'' @ '': 1} or {'' @ quoted ''action'' @ '': 2''"
  have s: "two_objects_reply = ''Either '' @ CHR ''{'' # ?mid @ CHR ''}'' # ''.''"
    by (simp add: two_objects_reply_def)
  have a: "CHR ''{'' \<notin> set ''Either ''" by simp
  have b: "CHR ''}'' \<notin> set ''.''" by simp
  note t = process_user_request_payload [of two_objects_reply only_empty_object]
  from t s a b have x: "extract_json_str two_objects_reply = Some (CHR ''{'' # ?mid @ [CHR ''}''])"
    by blast
  have l: "only_empty_object (CHR ''{'' # ?mid @ [CHR ''}'']) = Inl (Exn ''Extra data'')"
    by (simp add: only_empty_object_def quoted_def)
  from t x l have r: "process_user_request only_empty_object (Inr two_objects_reply) =
     (error_result (''Parse error: '' @ exn_text (Exn ''Extra data'')),
      [''Error parsing action: '' @ exn_text (Exn ''Extra data'')])"
    by blast
  have c: "CHR ''{'' \<notin> set ''no payload here''" by simp
  from process_user_request_payload [of "''no payload here''" only_empty_object] c
  have n: "process_user_request only_empty_object (Inr ''no payload here'') =
     (error_result ''Could not parse response'', [])"
    by blast
  from s a b x l r c n show ?thesis by simp
qed

section \<open>Properties of the template store\<close>






lemma safe_name_collision: "safe_name ''Save Icon'' = safe_name ''save-icon''"
  "safe_name ''Save Icon'' = ''save_icon''"
  by (simp_all add: safe_name_def py_lower_def isalnum_def lower_char_def char_of_def bit_0)

lemma unpack4_Inr:
  "unpack4 bbox = Inr b \<Longrightarrow> \<exists>x1 y1 x2 y2. bbox = [x1, y1, x2, y2] \<and> b = (x1, y1, x2, y2)"
  by (cases bbox rule: unpack4.cases) auto

lemma extract_step_entry:
  assumes "extract_step pil dir shot (templates, files, printed) element = (templates', files', printed')"
    and "templates' name = Some info"
  shows "templates name = Some info \<or>
     (\<exists>x1 y1 x2 y2 img.
        e_name element = Some name \<and> e_bounding_box element = Some [x1, y1, x2, y2] \<and>
        bounding_box info = [x1, y1, x2, y2] \<and>
        filename info = dir @ ''/'' @ safe_name name @ ''.png'' \<and>
        pil_crop pil shot (x1, y1, x2, y2) = Inr img \<and>
        pil_save pil img (filename info) = None)"
  using assms
  by (auto simp: extract_step_def extract_failed_def Let_def
      split: option.splits sum.splits if_splits dest!: unpack4_Inr)

lemma foldl_extract_entry:
  assumes "foldl (extract_step pil dir shot) st es = (templates', files', printed')"
    and "templates' name = Some info"
  shows "fst st name = Some info \<or>
     (\<exists>element \<in> set es. \<exists>x1 y1 x2 y2 img.
        e_name element = Some name \<and> e_bounding_box element = Some [x1, y1, x2, y2] \<and>
        bounding_box info = [x1, y1, x2, y2] \<and>
        filename info = dir @ ''/'' @ safe_name name @ ''.png'' \<and>
        pil_crop pil shot (x1, y1, x2, y2) = Inr img \<and>
        pil_save pil img (filename info) = None)"
  using assms
proof (induction es arbitrary: st)
  case Nil
  then show ?case by auto
next
  case (Cons e es)
  obtain templates files printed where st: "st = (templates, files, printed)"
    by (cases st)
  obtain t1 f1 p1 where s1: "extract_step pil dir shot (templates, files, printed) e = (t1, f1, p1)"
    by (cases "extract_step pil dir shot (templates, files, printed) e")
  from Cons.prems(1) have "foldl (extract_step pil dir shot) (t1, f1, p1) es = (templates', files', printed')"
    by (simp add: st s1)
  from Cons.IH [OF this Cons.prems(2)]
  show ?case
  proof
    assume "fst (t1, f1, p1) name = Some info"
    then have "t1 name = Some info" by simp
    from extract_step_entry [OF s1 this] show ?thesis
      by (auto simp: st)
  next
    assume "\<exists>element \<in> set es. \<exists>x1 y1 x2 y2 img.
        e_name element = Some name \<and> e_bounding_box element = Some [x1, y1, x2, y2] \<and>
        bounding_box info = [x1, y1, x2, y2] \<and>
        filename info = dir @ ''/'' @ safe_name name @ ''.png'' \<and>
        pil_crop pil shot (x1, y1, x2, y2) = Inr img \<and>
        pil_save pil img (filename info) = None"
    then show ?thesis by auto
  qed
qed


lemma rejects_empty_ref_pil: "rejects_empty ref_pil"
  by (simp add: rejects_empty_def ref_pil_def save_nonempty_def)

lemma offscreen_extraction:
  "extract_templates ref_pil ''templates'' margin_frame [offscreen_element] Map.empty =
     ([''Save Icon'' \<mapsto>
         \<lparr>filename = ''templates/save_icon.png'', bounding_box = [10, 10, 12, 12],
          elem_type = ''icon'', description = []\<rparr>],
      [''templates/save_icon.png'' \<mapsto> [[0, 0], [0, 0]]],
      [])"
  by (simp add: extract_templates_def extract_step_def offscreen_element_def element_of_def
      ref_pil_def crop_padded_def save_nonempty_def raster_size_def safe_name_collision(2)
      upto.simps margin_frame_def Let_def)

lemma onscreen_extraction:
  "extract_templates ref_pil ''templates'' margin_frame onscreen_elements Map.empty =
     ([''Save Icon'' \<mapsto>
         \<lparr>filename = ''templates/save_icon.png'', bounding_box = [2, 0, 4, 2],
          elem_type = ''icon'', description = []\<rparr>],
      [''templates/save_icon.png'' \<mapsto> [[10, 20], [30, 40]]],
      [''Error extracting template for Empty: tile cannot extend outside image''])"
  by (simp add: extract_templates_def extract_step_def onscreen_elements_def element_of_def
      ref_pil_def crop_padded_def save_nonempty_def raster_size_def safe_name_collision(2)
      upto.simps margin_frame_def Let_def extract_failed_def)

subsection \<open>Sanitised names\<close>



subsection \<open>What an entry of the returned dictionary guarantees\<close>

text \<open>
  Claim C9 does not hold as stated: the bounding box is never compared with the size of the
  screenshot. \<open>margin_frame\<close> has 2 rows and 4 columns; the element with the box
  (10, 10, 12, 12) lies outside it, \<open>Image.crop\<close> fills the part outside with 0, the
  raster is saved, and the entry is recorded with that box.
\<close>

theorem bounding_box_outside_counterexample:
  "shape margin_frame = (2, 4) \<and>
   extract_templates ref_pil ''templates'' margin_frame [offscreen_element] Map.empty =
     ([''Save Icon'' \<mapsto>
         \<lparr>filename = ''templates/save_icon.png'', bounding_box = [10, 10, 12, 12],
          elem_type = ''icon'', description = []\<rparr>],
      [''templates/save_icon.png'' \<mapsto> [[0, 0], [0, 0]]],
      [])"
  using offscreen_extraction by (simp add: shape_def margin_frame_def)

text \<open>
  Claim C9, amended. Every entry of the returned dictionary stems from an element that has a
  name and a bounding box of exactly four numbers, whose crop and whose save raised nothing;
  the entry holds that box unchanged and the path of the saved file. When saving a raster
  of width or height 0 raises, as \<open>Image.save\<close> does, the raster of every entry has
  non-zero width and height, so an element whose raster would be empty yields no entry. The
  box of an entry need not lie within the screenshot.
\<close>

theorem extract_templates_entries:
  assumes "extract_templates pil dir shot elements files = (templates, files', printed)"
    and "templates name = Some info"
  shows "\<exists>element \<in> set elements. \<exists>x1 y1 x2 y2 img.
        e_name element = Some name \<and> e_bounding_box element = Some [x1, y1, x2, y2] \<and>
        bounding_box info = [x1, y1, x2, y2] \<and>
        filename info = dir @ ''/'' @ safe_name name @ ''.png'' \<and>
        pil_crop pil shot (x1, y1, x2, y2) = Inr img \<and>
        pil_save pil img (filename info) = None \<and>
        (rejects_empty pil \<longrightarrow> 0 < fst (pil_size pil img) \<and> 0 < snd (pil_size pil img))"
proof -
  from foldl_extract_entry [OF assms(1) [unfolded extract_templates_def] assms(2)]
  obtain element x1 y1 x2 y2 img where e: "element \<in> set elements"
    and f: "e_name element = Some name" "e_bounding_box element = Some [x1, y1, x2, y2]"
      "bounding_box info = [x1, y1, x2, y2]"
      "filename info = dir @ ''/'' @ safe_name name @ ''.png''"
      "pil_crop pil shot (x1, y1, x2, y2) = Inr img"
      "pil_save pil img (filename info) = None"
    by auto
  have "rejects_empty pil \<longrightarrow> 0 < fst (pil_size pil img) \<and> 0 < snd (pil_size pil img)"
    using f(6) unfolding rejects_empty_def by (metis neq0_conv)
  with e f show ?thesis by blast
qed

theorem extract_templates_entries_witness:
  "extract_templates ref_pil ''templates'' margin_frame onscreen_elements Map.empty =
     ([''Save Icon'' \<mapsto>
         \<lparr>filename = ''templates/save_icon.png'', bounding_box = [2, 0, 4, 2],
          elem_type = ''icon'', description = []\<rparr>],
      [''templates/save_icon.png'' \<mapsto> [[10, 20], [30, 40]]],
      [''Error extracting template for Empty: tile cannot extend outside image'']) \<and>
   rejects_empty ref_pil \<and>
   (\<exists>element \<in> set onscreen_elements. \<exists>x1 y1 x2 y2 img.
        e_name element = Some ''Save Icon'' \<and> e_bounding_box element = Some [x1, y1, x2, y2] \<and>
        [2, 0, 4, 2] = [x1, y1, x2, y2] \<and>
        pil_crop ref_pil margin_frame (x1, y1, x2, y2) = Inr img \<and>
        pil_save ref_pil img ''templates/save_icon.png'' = None \<and>
        0 < fst (pil_size ref_pil img) \<and> 0 < snd (pil_size ref_pil img))"
proof -
  let ?info = "\<lparr>filename = ''templates/save_icon.png'', bounding_box = [2, 0, 4, 2],
          elem_type = ''icon'', description = []\<rparr>"
  have "[''Save Icon'' \<mapsto> ?info] ''Save Icon'' = Some ?info" by simp
  from extract_templates_entries [OF onscreen_extraction this] rejects_empty_ref_pil
  have "\<exists>element \<in> set onscreen_elements. \<exists>x1 y1 x2 y2 img.
        e_name element = Some ''Save Icon'' \<and> e_bounding_box element = Some [x1, y1, x2, y2] \<and>
        [2, 0, 4, 2] = [x1, y1, x2, y2] \<and>
        pil_crop ref_pil margin_frame (x1, y1, x2, y2) = Inr img \<and>
        pil_save ref_pil img ''templates/save_icon.png'' = None \<and>
        0 < fst (pil_size ref_pil img) \<and> 0 < snd (pil_size ref_pil img)"
    by auto
  with onscreen_extraction rejects_empty_ref_pil show ?thesis by (intro conjI)
qed

section \<open>Properties of the similarity check\<close>

text \<open>
  The variance of a window is not negative, so both factors of the denominator of a window
  score are positive, and a window scores 1 against itself. The correlation of a raster with
  itself is 1.
\<close>

lemma sum_sq_dev:
  "(\<Sum>a \<leftarrow> xs. (a - m) * (a - m)) =
     (\<Sum>a \<leftarrow> xs. a * a) - 2 * m * sum_list xs + real (length xs) * m * (m::real)"
  by (induction xs) (simp_all add: algebra_simps)

lemma variance_nonneg:
  "0 \<le> mean_real (map (\<lambda>a. a * a) x) - mean_real x * mean_real x"
proof (cases "x = []")
  case True
  then show ?thesis by (simp add: mean_real_def)
next
  case False
  let ?n = "real (length x)"
  let ?m = "sum_list x / ?n"
  from False have n: "0 < ?n" by simp
  have "0 \<le> (\<Sum>a \<leftarrow> x. (a - ?m) * (a - ?m))"
    by (rule sum_list_nonneg) auto
  also have "\<dots> = (\<Sum>a \<leftarrow> x. a * a) - 2 * ?m * sum_list x + ?n * ?m * ?m"
    by (rule sum_sq_dev)
  also have "\<dots> = (\<Sum>a \<leftarrow> x. a * a) - ?n * (?m * ?m)"
    using n by (simp add: field_simps)
  finally have "0 \<le> ((\<Sum>a \<leftarrow> x. a * a) - ?n * (?m * ?m)) / ?n"
    using n by simp
  also have "\<dots> = (\<Sum>a \<leftarrow> x. a * a) / ?n - ?m * ?m"
    using n by (simp add: field_simps)
  finally show ?thesis by (simp add: mean_real_def)
qed

lemma zip_self_map: "map (\<lambda>(a, b). a * b) (zip x x) = map (\<lambda>a. a * (a::real)) x"
  by (induction x) simp_all

lemma ssim_window_self: "ssim_window xs xs = 1"
proof -
  let ?x = "map real xs"
  let ?u = "mean_real ?x"
  let ?v = "49 / 48 * (mean_real (map (\<lambda>a. a * a) ?x) - ?u * ?u)"
  let ?C1 = "(1 / 100 * 255) * (1 / 100 * 255) :: real"
  let ?C2 = "(3 / 100 * 255) * (3 / 100 * 255) :: real"
  have v: "0 \<le> ?v" using variance_nonneg [of ?x] by simp
  have "0 \<le> 2 * ?u * ?u" by (simp add: mult.assoc)
  then have a: "0 < 2 * ?u * ?u + ?C1" by (rule add_nonneg_pos) simp
  have "0 \<le> 2 * ?v" using v by simp
  then have b: "0 < 2 * ?v + ?C2" by (rule add_nonneg_pos) simp
  have c: "?u * ?u + ?u * ?u + ?C1 = 2 * ?u * ?u + ?C1" by simp
  have d: "?v + ?v + ?C2 = 2 * ?v + ?C2" by simp
  have "ssim_window xs xs =
      ((2 * ?u * ?u + ?C1) * (2 * ?v + ?C2)) / ((?u * ?u + ?u * ?u + ?C1) * (?v + ?v + ?C2))"
    by (simp only: ssim_window_def Let_def zip_self_map)
  also have "\<dots> = ((2 * ?u * ?u + ?C1) * (2 * ?v + ?C2)) / ((2 * ?u * ?u + ?C1) * (2 * ?v + ?C2))"
    by (simp only: c d)
  also have "\<dots> = 1"
    using a b by simp
  finally show ?thesis .
qed

lemma mean_real_const:
  "xs \<noteq> [] \<Longrightarrow> \<forall>v \<in> set xs. v = c \<Longrightarrow> mean_real xs = c"
proof -
  assume ne: "xs \<noteq> []" and all: "\<forall>v \<in> set xs. v = c"
  have "sum_list xs = real (length xs) * c"
    using all by (induction xs) (simp_all add: algebra_simps)
  with ne show ?thesis by (simp add: mean_real_def)
qed

lemma length_concat_score_rows: "length (concat (score_rows n m f)) = n * m"
  by (simp add: score_rows_def length_concat comp_def sum_list_triv)

lemma set_concat_score_rows: "v \<in> set (concat (score_rows n m f)) \<Longrightarrow> \<exists>x y. v = f x y"
  by (auto simp: score_rows_def)

lemma ssim_ref_self:
  assumes "7 \<le> fst (shape im)" "7 \<le> snd (shape im)"
  shows "ssim_ref im im = Inr 1"
proof -
  let ?scores = "concat (score_rows (fst (shape im) - 6) (snd (shape im) - 6)
                  (\<lambda>x y. ssim_window (concat (window im x y 7 7)) (concat (window im x y 7 7))))"
  have "length ?scores = (fst (shape im) - 6) * (snd (shape im) - 6)"
    by (rule length_concat_score_rows)
  moreover have "0 < (fst (shape im) - 6) * (snd (shape im) - 6)"
    using assms by simp
  ultimately have "0 < length ?scores" by simp
  then have ne: "?scores \<noteq> []" by (rule length_greater_0_conv [THEN iffD1])
  have "\<forall>v \<in> set ?scores. v = 1"
  proof
    fix v assume "v \<in> set ?scores"
    from set_concat_score_rows [OF this] show "v = 1"
      by (auto simp: ssim_window_self)
  qed
  with ne have "mean_real ?scores = 1" by (rule mean_real_const)
  with assms show ?thesis by (simp add: ssim_ref_def)
qed

lemma ccoeff_normed_same: "ccoeff_normed t t = 1"
proof (cases "(\<Sum>d \<leftarrow> deviations t. d * d) = 0")
  case True
  then show ?thesis by (simp add: ccoeff_normed_def Let_def)
next
  case False
  let ?S = "\<Sum>d \<leftarrow> deviations t. d * d"
  from False sum_list_squares_nonneg [of "deviations t"] have pos: "0 < ?S" by simp
  have den: "sqrt (?S * ?S) = ?S" using pos by simp
  show ?thesis
    using pos by (simp add: ccoeff_normed_def Let_def sum_list_zip_self den del: real_sqrt_mult_self)
qed

lemma window_whole: "rect g h w \<Longrightarrow> window g 0 0 h w = g"
  by (simp add: rect_def window_def list_all_iff map_idI)

lemma cv2_matchTemplate_self:
  assumes "rect g h w" "0 < h"
  shows "cv2_matchTemplate g g = Inr [[1]]"
proof -
  have s: "shape g = (h, w)" using assms by (rule shape_rect)
  have "cv2_matchTemplate g g =
     Inr (score_rows (h - h + 1) (w - w + 1)
            (\<lambda>x y. ccoeff_normed (concat g) (concat (window g x y h w))))"
    by (rule cv2_matchTemplate_fits [OF s s]) simp_all
  also have "\<dots> = Inr [[ccoeff_normed (concat g) (concat (window g 0 0 h w))]]"
    by (simp add: score_rows_def)
  finally show ?thesis
    by (simp add: window_whole [OF assms(1)] ccoeff_normed_same)
qed

lemma stripes_ssim:
  "ssim_window (concat stripes) (concat stripes_negative) = - 1198084559 / 1252495441"
  by (simp add: ssim_window_def stripes_def stripes_negative_def mean_real_def Let_def)

text \<open>
  Claim C7 does not hold as stated: the function returns the score of the metric as it is,
  and the structural similarity is negative for rasters that vary against each other. For
  the stripes and their negative the score is about -0.957.
\<close>

theorem similarity_range_counterexample:
  "compare_screenshots ssim_lib (Array stripes) (Array stripes_negative) =
     Inr (- 1198084559 / 1252495441)"
proof -
  have s: "shape stripes = (7, 7)" "shape stripes_negative = (7, 7)"
    by (simp_all add: shape_def stripes_def stripes_negative_def)
  have w: "window stripes 0 0 7 7 = stripes" "window stripes_negative 0 0 7 7 = stripes_negative"
    by (simp_all add: window_def stripes_def stripes_negative_def)
  have "ssim_ref stripes stripes_negative =
          Inr (mean_real [ssim_window (concat stripes) (concat stripes_negative)])"
    by (simp add: ssim_ref_def s score_rows_def w)
  also have "\<dots> = Inr (- 1198084559 / 1252495441)"
    by (simp add: stripes_ssim mean_real_def)
  finally show ?thesis
    by (simp add: compare_screenshots_def as_gray_def ssim_lib_def s)
qed

text \<open>
  Claim C7, amended. For every image whose grayscale array has at least 7 rows and 7
  columns, \<open>compare_screenshots\<close> applied to the image and an identical copy returns 1,
  with the structural similarity and on the fallback path alike (the metrics computed
  exactly); the two arrays have the same shape, so nothing is resized.
\<close>

theorem compare_screenshots_identical:
  assumes "as_gray lib img = Inr g"
    and "rect g h w" and "7 \<le> h" and "7 \<le> w"
    and "skimage_ssim lib = Some ssim_ref \<or>
         (skimage_ssim lib = None \<and> match_template lib = cv2_matchTemplate)"
  shows "compare_screenshots lib img img = Inr 1"
proof -
  have s: "shape g = (h, w)" using assms(2,3) by (intro shape_rect) auto
  from assms(5) show ?thesis
  proof
    assume "skimage_ssim lib = Some ssim_ref"
    moreover have "ssim_ref g g = Inr 1"
      using assms(3,4) by (intro ssim_ref_self) (simp_all add: s)
    ultimately show ?thesis
      by (simp add: compare_screenshots_def assms(1))
  next
    assume a: "skimage_ssim lib = None \<and> match_template lib = cv2_matchTemplate"
    have "cv2_matchTemplate g g = Inr [[1]]"
      using assms(2,3) by (intro cv2_matchTemplate_self) auto
    with a show ?thesis
      by (simp add: compare_screenshots_def assms(1) max_val_def)
  qed
qed

theorem compare_screenshots_identical_witness:
  "as_gray ssim_lib (Array stripes) = Inr stripes \<and>
   as_gray fallback_lib (Array stripes) = Inr stripes \<and>
   rect stripes 7 7 \<and> (7::nat) \<le> 7 \<and>
   skimage_ssim ssim_lib = Some ssim_ref \<and>
   skimage_ssim fallback_lib = None \<and> match_template fallback_lib = cv2_matchTemplate \<and>
   compare_screenshots ssim_lib (Array stripes) (Array stripes) = Inr 1 \<and>
   compare_screenshots fallback_lib (Array stripes) (Array stripes) = Inr 1"
proof -
  have h1: "as_gray ssim_lib (Array stripes) = Inr stripes" by (simp add: as_gray_def)
  have h1': "as_gray fallback_lib (Array stripes) = Inr stripes" by (simp add: as_gray_def)
  have h2: "rect stripes 7 7" by (simp add: rect_def stripes_def)
  have h3: "(7::nat) \<le> 7" by simp
  have h5: "skimage_ssim ssim_lib = Some ssim_ref" by (simp add: ssim_lib_def)
  have h5': "skimage_ssim fallback_lib = None" "match_template fallback_lib = cv2_matchTemplate"
    by (simp_all add: fallback_lib_def)
  have a: "compare_screenshots ssim_lib (Array stripes) (Array stripes) = Inr 1"
    by (rule compare_screenshots_identical [OF h1 h2 h3 h3]) (simp add: h5)
  have b: "compare_screenshots fallback_lib (Array stripes) (Array stripes) = Inr 1"
    by (rule compare_screenshots_identical [OF h1' h2 h3 h3]) (simp add: h5')
  from h1 h1' h2 h3 h5 h5' a b show ?thesis by (intro conjI)
qed

section \<open>Properties of the action dispatcher\<close>

text \<open>
  The safety checks issue no external call. The \<open>try\<close> block returns \<open>False\<close> at once,
  with the world unchanged, when its guard fails; when one of the calls it issues raises, it
  ends with that exception.
\<close>

lemma rate_limit_calls: "w_calls (snd (rate_limit ex w)) = w_calls w"
  by (simp add: rate_limit_def Let_def py_sleep_def py_print_def)

lemma call_calls:
  "call raises c w = (r, w') \<Longrightarrow>
     w_calls w' = w_calls w @ [c] \<and> (raises c \<noteq> None \<longrightarrow> (\<exists>e. r = Inl e)) \<and>
     (raises c = None \<longrightarrow> r = Inr True)"
  by (auto simp: call_def split: option.splits)

lemma then_call_calls:
  assumes "call raises c1 w = (r1, w1)" and "then_call (r1, w1) raises c2 = (r, w')"
  shows "\<exists>new. w_calls w' = w_calls w @ new \<and> new \<noteq> [] \<and>
           ((\<exists>c \<in> set new. raises c \<noteq> None) \<longrightarrow> (\<exists>e. r = Inl e))"
  using assms
  by (auto simp: call_def then_call_def split: option.splits sum.splits)

lemma dispatch_no_location:
  "a \<in> set needs_location \<Longrightarrow> dispatch raises a None kw w = (Inr False, w)"
  by (auto simp: needs_location_def dispatch_def Let_def)

lemma dispatch_drag_no_end:
  "kw_end_location kw = None \<Longrightarrow> dispatch raises ''drag'' loc kw w = (Inr False, w)"
  by (auto simp: dispatch_def split: option.splits)

lemma dispatch_hotkey_no_keys:
  "kw_keys kw = None \<or> kw_keys kw = Some [] \<Longrightarrow> dispatch raises ''hotkey'' loc kw w = (Inr False, w)"
  by (auto simp: dispatch_def)

lemma dispatch_unknown:
  "a \<notin> set known_actions \<Longrightarrow> dispatch raises a loc kw w = (Inr False, w)"
  by (simp add: known_actions_def dispatch_def)

lemma dispatch_trace:
  assumes "dispatch raises a loc kw w = (r, w')"
  shows "\<exists>new. w_calls w' = w_calls w @ new \<and>
           ((\<exists>c \<in> set new. raises c \<noteq> None) \<longrightarrow> (\<exists>e. r = Inl e))"
proof -
  define P where "P \<longleftrightarrow> (\<exists>new. w_calls w' = w_calls w @ new \<and>
           ((\<exists>c \<in> set new. raises c \<noteq> None) \<longrightarrow> (\<exists>e. r = Inl e)))"
  have one: P if "call raises c w = (r, w')" for c
    using call_calls [OF that] unfolding P_def by auto
  have two: P if "then_call (call raises c1 w) raises c2 = (r, w')" for c1 c2
  proof -
    obtain r1 w1 where c: "call raises c1 w = (r1, w1)" by (cases "call raises c1 w")
    from then_call_calls [OF c that [unfolded c]] show ?thesis unfolding P_def by blast
  qed
  have none: P if "w_calls w' = w_calls w"
    using that unfolding P_def by simp
  have printed: P if "call raises c (py_print s w) = (r, w')" for c s
    using call_calls [OF that] unfolding P_def by (auto simp: py_print_def)
  from assms have P
    unfolding dispatch_def Let_def
    by (auto split: if_splits option.splits list.splits prod.splits
        intro: one two none printed simp: py_sleep_def py_print_def)
  then show ?thesis unfolding P_def .
qed

text \<open>
  Claim C10. \<open>execute_action\<close> returns a boolean, whatever the external calls do. When one
  of the calls it issues raises, the exception is caught and the result is \<open>False\<close>. The
  result is \<open>False\<close> and no external call is issued when \<open>click\<close>, \<open>double_click\<close>,
  \<open>right_click\<close>, \<open>drag\<close>, \<open>type\<close> or \<open>scroll\<close> is invoked without a location, when
  \<open>drag\<close> has no \<open>end_location\<close>, when \<open>hotkey\<close> has no keys or an empty list of keys,
  and when the action kind is not a known one.
\<close>

theorem execute_action_returns_bool:
  assumes "execute_action raises ex w action_type target location kw = (b, ex', w')"
  shows "\<exists>new. w_calls w' = w_calls w @ new \<and>
     ((\<exists>c \<in> set new. raises c \<noteq> None) \<longrightarrow> \<not> b) \<and>
     (action_type \<in> set needs_location \<and> location = None \<longrightarrow> \<not> b \<and> new = []) \<and>
     (action_type = ''drag'' \<and> kw_end_location kw = None \<longrightarrow> \<not> b \<and> new = []) \<and>
     (action_type = ''hotkey'' \<and> (kw_keys kw = None \<or> kw_keys kw = Some []) \<longrightarrow> \<not> b \<and> new = []) \<and>
     (action_type \<notin> set known_actions \<longrightarrow> \<not> b \<and> new = [])"
proof -
  obtain ex1 w1 where rl: "rate_limit ex w = (ex1, w1)" by (cases "rate_limit ex w")
  obtain r w2 where d: "dispatch raises action_type location kw w1 = (r, w2)"
    by (cases "dispatch raises action_type location kw w1")
  have w1: "w_calls w1 = w_calls w"
    using rate_limit_calls [of ex w] by (simp add: rl)
  have b: "b = (case r of Inl e \<Rightarrow> False | Inr v \<Rightarrow> v)"
    and w': "w_calls w' = w_calls w2"
    using assms by (auto simp: execute_action_def rl d Let_def py_print_def split: sum.splits)
  from dispatch_trace [OF d] obtain new where n: "w_calls w2 = w_calls w1 @ new"
    and raised: "(\<exists>c \<in> set new. raises c \<noteq> None) \<longrightarrow> (\<exists>e. r = Inl e)"
    by blast
  have guard: "\<not> b \<and> new = []" if "dispatch raises action_type location kw w1 = (Inr False, w1)"
    using that d n b by simp
  have g1: "action_type \<in> set needs_location \<and> location = None \<longrightarrow> \<not> b \<and> new = []"
    using guard dispatch_no_location by blast
  have g2: "action_type = ''drag'' \<and> kw_end_location kw = None \<longrightarrow> \<not> b \<and> new = []"
    using guard dispatch_drag_no_end by blast
  have g3: "action_type = ''hotkey'' \<and> (kw_keys kw = None \<or> kw_keys kw = Some []) \<longrightarrow> \<not> b \<and> new = []"
    using guard dispatch_hotkey_no_keys by blast
  have g4: "action_type \<notin> set known_actions \<longrightarrow> \<not> b \<and> new = []"
    using guard dispatch_unknown by blast
  have r: "(\<exists>c \<in> set new. raises c \<noteq> None) \<longrightarrow> \<not> b"
    using raised b by auto
  have "w_calls w' = w_calls w @ new" by (simp add: w' n w1)
  with r g1 g2 g3 g4 show ?thesis by blast
qed

text \<open>
  Two instances: a \<open>drag\<close> whose \<open>dragTo\<close> raises returns \<open>False\<close> after the two calls
  were issued and the error line was printed; a \<open>click\<close> without a location returns
  \<open>False\<close> and leaves the world as it was.
\<close>

lemma failed_drag:
  "execute_action failsafe idle_executor idle_world ''drag'' (Some ''File'') (Some (5, 5)) drag_kwargs =
     (False,
      \<lparr>safety_level = ''high'', last_action_time = 10, actions_per_minute = 1,
       action_history = [failed_drag_record]\<rparr>,
      \<lparr>w_clock = 10, w_calls = [MoveTo 5 5, DragTo 9 9],
       w_output = [''Error executing action: PyAutoGUI fail-safe triggered'']\<rparr>)"
  by (simp add: execute_action_def rate_limit_def dispatch_def call_def then_call_def
      idle_executor_def idle_world_def drag_kwargs_def no_kwargs_def failsafe_def
      failed_drag_record_def py_print_def Let_def)

lemma click_without_location:
  "execute_action failsafe idle_executor idle_world ''click'' (Some ''File'') None no_kwargs =
     (False,
      \<lparr>safety_level = ''high'', last_action_time = 10, actions_per_minute = 1,
       action_history = [\<lparr>rec_type = ''click'', rec_target = Some ''File'', rec_location = None,
                           rec_params = no_kwargs, rec_timestamp = 10\<rparr>]\<rparr>,
      idle_world)"
  by (simp add: execute_action_def rate_limit_def dispatch_def
      idle_executor_def idle_world_def Let_def)

theorem execute_action_returns_bool_witness:
  "execute_action failsafe idle_executor idle_world ''drag'' (Some ''File'') (Some (5, 5)) drag_kwargs =
     (False,
      \<lparr>safety_level = ''high'', last_action_time = 10, actions_per_minute = 1,
       action_history = [failed_drag_record]\<rparr>,
      \<lparr>w_clock = 10, w_calls = [MoveTo 5 5, DragTo 9 9],
       w_output = [''Error executing action: PyAutoGUI fail-safe triggered'']\<rparr>) \<and>
   (\<exists>new. [MoveTo 5 5, DragTo 9 9] = w_calls idle_world @ new \<and>
      (\<exists>c \<in> set new. failsafe c \<noteq> None)) \<and>
   execute_action failsafe idle_executor idle_world ''click'' (Some ''File'') None no_kwargs =
     (False,
      \<lparr>safety_level = ''high'', last_action_time = 10, actions_per_minute = 1,
       action_history = [\<lparr>rec_type = ''click'', rec_target = Some ''File'', rec_location = None,
                           rec_params = no_kwargs, rec_timestamp = 10\<rparr>]\<rparr>,
      idle_world) \<and>
   ''click'' \<in> set needs_location \<and>
   (\<exists>new. w_calls idle_world = w_calls idle_world @ new \<and> new = [])"
proof -
  from execute_action_returns_bool [OF failed_drag]
  obtain new where n: "w_calls \<lparr>w_clock = 10, w_calls = [MoveTo 5 5, DragTo 9 9],
       w_output = [''Error executing action: PyAutoGUI fail-safe triggered'']\<rparr> =
         w_calls idle_world @ new"
    by blast
  then have "new = [MoveTo 5 5, DragTo 9 9]"
    by (simp add: idle_world_def)
  then have "\<exists>c \<in> set new. failsafe c \<noteq> None"
    by (simp add: failsafe_def)
  with n have a: "\<exists>new. [MoveTo 5 5, DragTo 9 9] = w_calls idle_world @ new \<and>
      (\<exists>c \<in> set new. failsafe c \<noteq> None)"
    by auto
  have c: "''click'' \<in> set needs_location"
    by (simp add: needs_location_def)
  from execute_action_returns_bool [OF click_without_location] c
  have b: "\<exists>new. w_calls idle_world = w_calls idle_world @ new \<and> new = []"
    by blast
  from failed_drag a click_without_location c b show ?thesis by (intro conjI)
qed

end
